theory Spec2Isabelle
  imports Complex_Main
begin

section \<open>JavaScript strings, numbers and arrays\<close>

text \<open>
  A JavaScript string is a sequence of UTF-16 code units. It is modelled as a
  \<^typ>\<open>string\<close>, a list of characters, where the character with number \<open>n\<close> stands for the
  code unit \<open>n\<close>: the strings of the model are the JavaScript strings whose code units are
  below 256 (the Latin-1 range), and \<open>length\<close> counts code units as \<open>.length\<close> does. On
  these strings \<open>toLowerCase\<close> folds the letters A to Z and the accented capital letters
  \<open>U+00C0\<close> to \<open>U+00DE\<close> (without the multiplication sign \<open>U+00D7\<close>), \<open>trim\<close> strips the
  white space and line terminator code units \<open>U+0009\<close> to \<open>U+000D\<close>, \<open>U+0020\<close> and \<open>U+00A0\<close>,
  and the regular expression classes \<open>\w\<close> and \<open>\b\<close> are the ASCII ones, as they are in
  JavaScript for a pattern without the unicode flag.

  Time stamps and beat indices are integers (\<^typ>\<open>int\<close>), as the data model of the
  specification has them; array indices and lengths are natural numbers, and a value of
  \<open>Math.random()\<close> is a rational number. JavaScript computes with IEEE 754 doubles: where
  the source adds to a number that the request supplies, the rounding of the sum is
  modelled (\<open>plus_one\<close> below).
\<close>

definition upper_letters :: string where
  "upper_letters = ''ABCDEFGHIJKLMNOPQRSTUVWXYZ''"

definition lower_letters :: string where
  "lower_letters = ''abcdefghijklmnopqrstuvwxyz''"

definition digit_chars :: string where
  "digit_chars = ''0123456789''"

text \<open>The capital letters \<open>U+00C0\<close> to \<open>U+00DE\<close> and their small letters, \<open>32\<close> above.\<close>

definition upper_latin1 :: string where
  "upper_latin1 =
     [CHR 0xC0, CHR 0xC1, CHR 0xC2, CHR 0xC3, CHR 0xC4, CHR 0xC5, CHR 0xC6, CHR 0xC7,
      CHR 0xC8, CHR 0xC9, CHR 0xCA, CHR 0xCB, CHR 0xCC, CHR 0xCD, CHR 0xCE, CHR 0xCF,
      CHR 0xD0, CHR 0xD1, CHR 0xD2, CHR 0xD3, CHR 0xD4, CHR 0xD5, CHR 0xD6,
      CHR 0xD8, CHR 0xD9, CHR 0xDA, CHR 0xDB, CHR 0xDC, CHR 0xDD, CHR 0xDE]"

definition lower_latin1 :: string where
  "lower_latin1 =
     [CHR 0xE0, CHR 0xE1, CHR 0xE2, CHR 0xE3, CHR 0xE4, CHR 0xE5, CHR 0xE6, CHR 0xE7,
      CHR 0xE8, CHR 0xE9, CHR 0xEA, CHR 0xEB, CHR 0xEC, CHR 0xED, CHR 0xEE, CHR 0xEF,
      CHR 0xF0, CHR 0xF1, CHR 0xF2, CHR 0xF3, CHR 0xF4, CHR 0xF5, CHR 0xF6,
      CHR 0xF8, CHR 0xF9, CHR 0xFA, CHR 0xFB, CHR 0xFC, CHR 0xFD, CHR 0xFE]"

definition toLowerCase_char :: "char \<Rightarrow> char" where
  "toLowerCase_char c =
     (case map_of (zip (upper_letters @ upper_latin1) (lower_letters @ lower_latin1)) c of
        Some l \<Rightarrow> l
      | None \<Rightarrow> c)"

text \<open>
  \<open>toUpperCase\<close> of one character. The source applies it to the first letter of a genre
  name, which is a small ASCII letter.
\<close>

definition toUpperCase_char :: "char \<Rightarrow> char" where
  "toUpperCase_char c =
     (case map_of (zip lower_letters upper_letters) c of Some u \<Rightarrow> u | None \<Rightarrow> c)"

definition toLowerCase :: "string \<Rightarrow> string" where
  "toLowerCase s = map toLowerCase_char s"

text \<open>\<open>s.includes(sub)\<close>: \<open>sub\<close> occurs in \<open>s\<close> as a contiguous run.\<close>

fun str_includes :: "string \<Rightarrow> string \<Rightarrow> bool" where
  "str_includes [] sub = (sub = [])"
| "str_includes (c # cs) sub = (take (length sub) (c # cs) = sub \<or> str_includes cs sub)"

text \<open>\<open>s.substring(0, n)\<close> for \<open>n \<ge> 0\<close>.\<close>

definition substring0 :: "string \<Rightarrow> nat \<Rightarrow> string" where
  "substring0 s n = take n s"

text \<open>\<open>parts.join(sep)\<close>.\<close>

fun join :: "string \<Rightarrow> string list \<Rightarrow> string" where
  "join sep [] = []"
| "join sep [p] = p"
| "join sep (p # q # ps) = p @ sep @ join sep (q # ps)"

text \<open>
  \<open>s.trim()\<close> strips white space and line terminators from both ends. Below 256 these are
  the code units \<open>U+0009\<close> to \<open>U+000D\<close>, the space \<open>U+0020\<close> and the no-break space \<open>U+00A0\<close>.
\<close>

definition is_space :: "char \<Rightarrow> bool" where
  "is_space c =
     (c \<in> set [CHR '' '', CHR 0x09, CHR 0x0A, CHR 0x0B, CHR 0x0C, CHR 0x0D, CHR 0xA0])"

definition trim :: "string \<Rightarrow> string" where
  "trim s = rev (dropWhile is_space (rev (dropWhile is_space s)))"

text \<open>
  \<open>s.split(/[.!?]+/)\<close>: the pieces between maximal runs of sentence terminators, with
  the empty piece before a leading run and after a trailing run, as JavaScript returns them.
\<close>

definition is_terminator :: "char \<Rightarrow> bool" where
  "is_terminator c = (c \<in> set ''.!?'')"

fun split_piece :: "string \<Rightarrow> string \<Rightarrow> string list"
  and split_run :: "string \<Rightarrow> string list" where
  "split_piece cur [] = [rev cur]"
| "split_piece cur (c # cs) =
     (if is_terminator c then rev cur # split_run cs else split_piece (c # cur) cs)"
| "split_run [] = [[]]"
| "split_run (c # cs) = (if is_terminator c then split_run cs else split_piece [c] cs)"

definition split_sentences :: "string \<Rightarrow> string list" where
  "split_sentences s = split_piece [] s"

text \<open>
  \<open>re.test(s)\<close> for a pattern \<open>\b(w1|w2|...)\b\<close> whose alternatives are non-empty words.
  \<open>\b\<close> holds between two positions exactly when one side is a word character
  (\<open>[A-Za-z0-9_]\<close>) and the other is not; the ends of the string count as non-word.
\<close>

definition is_word_char :: "char \<Rightarrow> bool" where
  "is_word_char c = (c \<in> set (lower_letters @ upper_letters @ digit_chars @ ''_''))"

fun is_word_opt :: "char option \<Rightarrow> bool" where
  "is_word_opt None = False"
| "is_word_opt (Some c) = is_word_char c"

definition word_boundary :: "char option \<Rightarrow> char option \<Rightarrow> bool" where
  "word_boundary l r = (is_word_opt l \<noteq> is_word_opt r)"

fun first_opt :: "string \<Rightarrow> char option" where
  "first_opt [] = None"
| "first_opt (c # cs) = Some c"

definition alt_matches_at :: "char option \<Rightarrow> string \<Rightarrow> string \<Rightarrow> bool" where
  "alt_matches_at prev rest w =
     (take (length w) rest = w \<and>
      word_boundary prev (first_opt rest) \<and>
      word_boundary (first_opt (rev w)) (first_opt (drop (length w) rest)))"

fun word_search :: "string list \<Rightarrow> char option \<Rightarrow> string \<Rightarrow> bool" where
  "word_search alts prev [] = False"
| "word_search alts prev (c # cs) =
     (list_ex (alt_matches_at prev (c # cs)) alts \<or> word_search alts (Some c) cs)"

definition matches_word :: "string list \<Rightarrow> string \<Rightarrow> bool" where
  "matches_word alts s = word_search alts None s"

text \<open>The decimal text of a number, as a template literal prints an integer.\<close>

fun show_nat :: "nat \<Rightarrow> string" where
  "show_nat n =
     (if n < 10 then [digit_chars ! n] else show_nat (n div 10) @ [digit_chars ! (n mod 10)])"

declare show_nat.simps [simp del]

definition show_int :: "int \<Rightarrow> string" where
  "show_int i = (if i < 0 then CHR ''-'' # show_nat (nat (- i)) else show_nat (nat i))"

text \<open>
  The sum \<open>x + 1\<close> of JavaScript for a number \<open>x\<close> that is an integer. A number is an IEEE 754
  double: every integer from \<open>-2^53\<close> to \<open>2^53\<close> is a double; of the integers of greater
  magnitude, the doubles are the even ones up to magnitude \<open>2^54\<close> and multiples of 4 (or
  of a greater power of two) beyond. A sum is rounded to the nearest double, and of two
  nearest doubles to the one with the even significand. So \<open>x + 1\<close> is exact for
  \<open>-2^53 \<le> x < 2^53\<close>; for an even \<open>x\<close> of a magnitude from \<open>2^53\<close> up to \<open>2^54\<close> the sum lies
  midway between the doubles \<open>x\<close> and \<open>x + 2\<close> and is rounded to the multiple of 4 among
  them; and for a greater magnitude the nearest double is \<open>x\<close> itself. A number that the
  program reads is a double, so that \<open>plus_one\<close> is the sum of the program at every integer
  that the program can hold.
\<close>

definition plus_one :: "int \<Rightarrow> int" where
  "plus_one x =
     (if - (2 ^ 53) \<le> x \<and> x < 2 ^ 53 then x + 1
      else if (2 ^ 53 \<le> x \<and> x < 2 ^ 54) \<or> (- (2 ^ 54) < x \<and> x < - (2 ^ 53)) then
        (if x mod 4 = 0 then x else x + 2)
      else x)"

text \<open>
  \<open>new Map(entries).get(k)\<close>: a later entry with the same key replaces an earlier one.
\<close>

definition Map_get :: "('k \<times> 'v) list \<Rightarrow> 'k \<Rightarrow> 'v option" where
  "Map_get entries k = map_of (rev entries) k"

text \<open>\<open>xs.slice(-n)\<close>: the last \<open>n\<close> elements.\<close>

definition slice_last :: "nat \<Rightarrow> 'a list \<Rightarrow> 'a list" where
  "slice_last n xs = drop (length xs - n) xs"

section \<open>The data model (types/scene)\<close>

datatype LanguageCode = En | Es | Fr | De | It | Ja | Zh | Ko | Hi | Mixed

datatype ActorRole = Protagonist | Antagonist | Supporting | Narrator | Ensemble

record Actor =
  actor_id :: string
  actor_name :: string
  actor_role :: ActorRole
  actor_language :: LanguageCode
  actor_voiceId :: string
  actor_style :: string

record Line =
  line_id :: string
  line_actorId :: string
  line_text :: string
  line_timestamp :: int
  line_beatIndex :: int
  line_audioUrl :: string

record SceneState =
  scene_id :: string
  scene_title :: string
  scene_genre :: string
  scene_setting :: string
  scene_logline :: string
  scene_summary :: string
  scene_actors :: "Actor list"
  scene_lines :: "Line list"
  scene_createdAt :: int
  scene_updatedAt :: int

section \<open>The scene summarizer (lib/summarizeScene)\<close>

datatype Tone = Neutral | Tense | Positive | Somber | Inquisitive

definition anger_words :: "string list" where
  "anger_words = [''angry'', ''mad'', ''furious'', ''rage'', ''hate'']"

definition joy_words :: "string list" where
  "joy_words = [''happy'', ''joy'', ''excited'', ''great'', ''wonderful'']"

definition sorrow_words :: "string list" where
  "sorrow_words = [''sad'', ''sorry'', ''regret'', ''disappointed'', ''worried'']"

definition question_words :: "string list" where
  "question_words = [''question'', ''why'', ''what'', ''how'', ''confused'']"

definition intent_words :: "string list" where
  "intent_words = [''will'', ''must'', ''should'', ''need'', ''want'', ''going'', ''decided'',
     ''think'', ''believe'']"

text \<open>The \<open>if / else if\<close> chain over the lower-cased text of the recent lines.\<close>

definition detectTone :: "string \<Rightarrow> Tone" where
  "detectTone allText =
     (if matches_word anger_words allText then Tense
      else if matches_word joy_words allText then Positive
      else if matches_word sorrow_words allText then Somber
      else if matches_word question_words allText then Inquisitive
      else Neutral)"

fun toneDescriptions :: "Tone \<Rightarrow> string" where
  "toneDescriptions Tense = ''The conversation has become tense.''"
| "toneDescriptions Positive = ''The mood is positive.''"
| "toneDescriptions Somber = ''The atmosphere is somber.''"
| "toneDescriptions Inquisitive = ''Questions are being raised.''"
| "toneDescriptions Neutral = ''''"

definition allText :: "Line list \<Rightarrow> string" where
  "allText recentLines = toLowerCase (join '' '' (map line_text recentLines))"

text \<open>
  \<open>linesByActor\<close>: a \<open>Map\<close> keeps its keys in the order of their first insertion; a line is
  pushed onto the array of its actor.
\<close>

fun group_push :: "(string \<times> Line list) list \<Rightarrow> Line \<Rightarrow> (string \<times> Line list) list" where
  "group_push [] l = [(line_actorId l, [l])]"
| "group_push ((k, ls) # rest) l =
     (if k = line_actorId l then (k, ls @ [l]) # rest else (k, ls) # group_push rest l)"

definition linesByActor :: "Line list \<Rightarrow> (string \<times> Line list) list" where
  "linesByActor recentLines = foldl group_push [] recentLines"

text \<open>
  \<open>mainSpeakers\<close>: the entries sorted by falling number of lines (the sort is stable), the
  first three, each mapped to the actor's name or to \<open>Unknown\<close>.
\<close>

definition mainSpeakers :: "Line list \<Rightarrow> Actor list \<Rightarrow> string list" where
  "mainSpeakers recentLines actors =
     map (\<lambda>(actorId, ls).
            case Map_get (map (\<lambda>a. (actor_id a, a)) actors) actorId of
              Some a \<Rightarrow> actor_name a
            | None \<Rightarrow> ''Unknown'')
       (take 3 (sort_key (\<lambda>(actorId, ls). - int (length ls)) (linesByActor recentLines)))"

definition speakerSentence :: "string list \<Rightarrow> string list" where
  "speakerSentence speakers =
     (if length speakers > 0 then
        (if length speakers = 1 then [speakers ! 0 @ '' has been speaking.'']
         else if length speakers = 2 then
           [speakers ! 0 @ '' and '' @ speakers ! 1 @ '' have been in dialogue.'']
         else
           [speakers ! 0 @ '', '' @ speakers ! 1 @ '', and '' @ speakers ! 2 @
              '' have been conversing.''])
      else [])"

definition keyPhrase :: "Line \<Rightarrow> string list" where
  "keyPhrase l =
     (let text = line_text l in
      if str_includes text ''?'' then [substring0 text (min 80 (length text))]
      else if matches_word intent_words (toLowerCase text) \<or> length text > 50
        then [substring0 text (min 80 (length text))]
      else [])"

definition keyPhrases :: "Line list \<Rightarrow> string list" where
  "keyPhrases recentLines = concat (map keyPhrase recentLines)"

definition topicSentence :: "Line list \<Rightarrow> string list" where
  "topicSentence recentLines =
     (if length (keyPhrases recentLines) > 0 then
        [''Recent topics include: '' @
           substring0 (join '' '' (take 2 (keyPhrases recentLines))) 120 @ ''...'']
      else [])"

definition toneSentence :: "Line list \<Rightarrow> string list" where
  "toneSentence recentLines =
     (let tone = detectTone (allText recentLines) in
      if tone \<noteq> Neutral then [toneDescriptions tone] else [])"

definition beatCount :: "Line list \<Rightarrow> nat" where
  "beatCount recentLines = length (remdups (map line_beatIndex recentLines))"

definition beatSentence :: "Line list \<Rightarrow> string list" where
  "beatSentence recentLines =
     (if beatCount recentLines > 1 then
        [''The conversation has progressed through '' @ show_nat (beatCount recentLines) @
           '' beats.'']
      else [])"

definition prevSentence :: "string \<Rightarrow> string list" where
  "prevSentence prevSummary =
     (if prevSummary \<noteq> [] \<and> length (trim prevSummary) > 0 then
        (let prevSentences = filter (\<lambda>s. length (trim s) > 0) (split_sentences prevSummary) in
         if length prevSentences > 0 then
           [''Building on previous context: '' @ substring0 (prevSentences ! 0) 100 @ ''...'']
         else [])
      else [])"

definition summaryParts :: "string \<Rightarrow> Line list \<Rightarrow> Actor list \<Rightarrow> string list" where
  "summaryParts prevSummary recentLines actors =
     speakerSentence (mainSpeakers recentLines actors) @ topicSentence recentLines @
     toneSentence recentLines @ beatSentence recentLines @ prevSentence prevSummary"

definition finalSummary :: "string \<Rightarrow> Line list \<Rightarrow> Actor list \<Rightarrow> string" where
  "finalSummary prevSummary recentLines actors =
     join '' '' (take 5 (filter (\<lambda>part. length (trim part) > 0)
       (summaryParts prevSummary recentLines actors)))"

definition summarizeScene :: "string \<Rightarrow> Line list \<Rightarrow> Actor list \<Rightarrow> string" where
  "summarizeScene prevSummary lines actors =
     (let recentLines = slice_last 10 lines in
      if length recentLines = 0 then
        (if prevSummary \<noteq> [] then prevSummary else ''Scene is beginning.'')
      else
        (let final = finalSummary prevSummary recentLines actors in
         if prevSummary \<noteq> [] \<and> length (trim prevSummary) > 0 \<and> length final > 50 then
           substring0 (prevSummary @ '' '' @ final) 800
         else if final \<noteq> [] then final
         else ''Scene dialogue is progressing.''))"

section \<open>The default scene (lib/sceneUtils)\<close>

definition defaultActors :: "Actor list" where
  "defaultActors =
     [\<lparr>actor_id = ''actor-1'', actor_name = ''Alex'', actor_role = Protagonist,
        actor_language = En, actor_voiceId = ''21m00Tcm4TlvDq8ikWAM'', actor_style = ''dramatic''\<rparr>,
      \<lparr>actor_id = ''actor-2'', actor_name = ''Sam'', actor_role = Antagonist,
        actor_language = En, actor_voiceId = ''pNInz6obpgDQGcFmaJgB'', actor_style = ''neutral''\<rparr>,
      \<lparr>actor_id = ''actor-3'', actor_name = ''Jordan'', actor_role = Supporting,
        actor_language = En, actor_voiceId = ''EXAVITQu4vr4xnSDxMaL'', actor_style = ''comedic''\<rparr>]"

text \<open>\<open>now\<close> is the value of \<open>Date.now()\<close> at the call.\<close>

definition createDefaultScene :: "int \<Rightarrow> SceneState" where
  "createDefaultScene now =
     \<lparr>scene_id = ''scene-'' @ show_int now,
      scene_title = ''Untitled Scene'',
      scene_genre = ''drama'',
      scene_setting = ''A neutral location'',
      scene_logline = ''A scene begins.'',
      scene_summary = ''Initial scene setup. Ready for dialogue.'',
      scene_actors = defaultActors,
      scene_lines = [],
      scene_createdAt = now,
      scene_updatedAt = now\<rparr>"

section \<open>The mock director and the mock speech (lib/mockDirector, lib/mockTTS)\<close>

datatype exn = TypeError | DirectorFailed | NoDialogueLines | InvalidActorId string

definition MOCK_ACTORS :: "Actor list" where
  "MOCK_ACTORS =
     [\<lparr>actor_id = ''actor-1'', actor_name = ''Alex'', actor_role = Protagonist,
        actor_language = En, actor_voiceId = ''voice-alex'', actor_style = ''dramatic''\<rparr>,
      \<lparr>actor_id = ''actor-2'', actor_name = ''Sam'', actor_role = Antagonist,
        actor_language = En, actor_voiceId = ''voice-sam'', actor_style = ''neutral''\<rparr>,
      \<lparr>actor_id = ''actor-3'', actor_name = ''Jordan'', actor_role = Supporting,
        actor_language = En, actor_voiceId = ''voice-jordan'', actor_style = ''comedic''\<rparr>]"

definition GENRES :: "string list" where
  "GENRES = [''drama'', ''comedy'', ''thriller'', ''sci-fi'', ''horror'', ''romance'']"

definition SETTINGS :: "string list" where
  "SETTINGS =
     [''A dimly lit coffee shop in downtown'', ''An abandoned warehouse on the outskirts'',
      ''A high-tech laboratory'', ''A quiet suburban home'', ''A bustling city street'']"

text \<open>
  \<open>createInitialScene\<close>. \<open>genreDraw\<close> is the value of
  \<open>Math.floor(Math.random() * GENRES.length)\<close>, which is computed only when the command does
  not mention horror, and \<open>settingDraw\<close> the value of
  \<open>Math.floor(Math.random() * SETTINGS.length)\<close>; both are indices of their arrays. The turn
  handler never calls this function.
\<close>

definition createInitialScene :: "int \<Rightarrow> nat \<Rightarrow> nat \<Rightarrow> string option \<Rightarrow> SceneState" where
  "createInitialScene now genreDraw settingDraw userCommand =
     (let genre =
            (if (case userCommand of None \<Rightarrow> False
                 | Some c \<Rightarrow> str_includes (toLowerCase c) ''horror'')
             then ''horror''
             else GENRES ! genreDraw);
          setting = SETTINGS ! settingDraw
      in \<lparr>scene_id = ''scene-'' @ show_int now,
          scene_title = map toUpperCase_char (take 1 genre) @ drop 1 genre @ '' Scene'',
          scene_genre = genre,
          scene_setting = setting,
          scene_logline =
            ''A tense encounter between characters in '' @ toLowerCase setting @ ''.'',
          scene_summary =
            ''Initial scene setup: '' @ setting @ ''. Characters are about to engage in dialogue.'',
          scene_actors = MOCK_ACTORS,
          scene_lines = [],
          scene_createdAt = now,
          scene_updatedAt = now\<rparr>)"

text \<open>
  \<open>xs[i]\<close> followed by a property access: outside the array the element is \<open>undefined\<close>
  and the access throws a \<open>TypeError\<close>.
\<close>

definition array_get :: "'a list \<Rightarrow> nat \<Rightarrow> exn + 'a" where
  "array_get xs i = (if i < length xs then Inr (xs ! i) else Inl TypeError)"

definition mockText :: "nat \<Rightarrow> Actor \<Rightarrow> Actor \<Rightarrow> string \<Rightarrow> string" where
  "mockText i actor nextActor userCommand =
     (let text =
            (if i = 0 then ''Hey, '' @ actor_name nextActor @ '', we need to talk.''
             else if i = 1 then ''What's on your mind, '' @ actor_name actor @ ''?''
             else if i = 2 then ''I've been thinking about what you said earlier.''
             else ''Go on, I'm listening.'');
          cmdLower = toLowerCase userCommand
      in if str_includes cmdLower ''angry'' \<or> str_includes cmdLower ''mad'' then
           (if i = 0 then ''I'm really upset about this!'' else ''You have no right to be angry!'')
         else if str_includes cmdLower ''happy'' \<or> str_includes cmdLower ''excited'' then
           (if i = 0 then ''This is amazing news!'' else ''I'm so happy to hear that!'')
         else if str_includes cmdLower ''sad'' then
           (if i = 0 then ''I can't believe this happened...'' else ''I'm sorry you feel that way.'')
         else text)"

definition mockLine :: "Actor list \<Rightarrow> string \<Rightarrow> int \<Rightarrow> int \<Rightarrow> nat \<Rightarrow> exn + Line" where
  "mockLine actors userCommand now beatIndex i =
     (let actorIndex = i mod length actors in
      case array_get actors actorIndex of
        Inl e \<Rightarrow> Inl e
      | Inr actor \<Rightarrow>
          (case array_get actors ((actorIndex + 1) mod length actors) of
             Inl e \<Rightarrow> Inl e
           | Inr nextActor \<Rightarrow>
               Inr \<lparr>line_id = ''line-'' @ show_int now @ ''-'' @ show_nat i,
                    line_actorId = actor_id actor,
                    line_text = mockText i actor nextActor userCommand,
                    line_timestamp = now + int i * 1000,
                    line_beatIndex = beatIndex,
                    line_audioUrl = []\<rparr>))"

text \<open>The \<open>for\<close> loop: \<open>i\<close> is the loop index, the last argument the rounds still to run.\<close>

fun mockLoop :: "Actor list \<Rightarrow> string \<Rightarrow> int \<Rightarrow> int \<Rightarrow> nat \<Rightarrow> nat \<Rightarrow> exn + Line list" where
  "mockLoop actors userCommand now beatIndex i 0 = Inr []"
| "mockLoop actors userCommand now beatIndex i (Suc k) =
     (case mockLine actors userCommand now beatIndex i of
        Inl e \<Rightarrow> Inl e
      | Inr l \<Rightarrow>
          (case mockLoop actors userCommand now beatIndex (i + 1) k of
             Inl e \<Rightarrow> Inl e
           | Inr ls \<Rightarrow> Inr (l # ls)))"

text \<open>
  \<open>generateMockLines\<close>; \<open>now\<close> is the value of \<open>Date.now()\<close> and \<open>random\<close> the value of
  \<open>Math.random()\<close> at the call. The beat index of the lines is the JavaScript sum
  \<open>currentBeatIndex + 1\<close>.
\<close>

definition generateMockLines ::
  "SceneState \<Rightarrow> string \<Rightarrow> int \<Rightarrow> int \<Rightarrow> rat \<Rightarrow> exn + Line list" where
  "generateMockLines sceneState userCommand currentBeatIndex now random =
     (let actors = scene_actors sceneState in
      if length actors = 0 then Inr []
      else
        (let numLines = 3 + \<lfloor>random * 2\<rfloor>;
             beatIndex = plus_one currentBeatIndex
         in mockLoop actors userCommand now beatIndex 0 (nat numLines)))"

definition generateAudioUrl :: "string \<Rightarrow> string \<Rightarrow> string" where
  "generateAudioUrl lineId voiceId =
     ''https://placeholder-audio.example.com/'' @ voiceId @ ''/'' @ lineId @ ''.mp3''"

definition processLinesWithTTS :: "Line list \<Rightarrow> (string \<times> string) list \<Rightarrow> Line list" where
  "processLinesWithTTS lines actors =
     map (\<lambda>line.
            case Map_get actors (line_actorId line) of
              None \<Rightarrow> line
            | Some voiceId \<Rightarrow> line\<lparr>line_audioUrl := generateAudioUrl (line_id line) voiceId\<rparr>)
       lines"

section \<open>The director agent's response (lib/directorAgent)\<close>

datatype DirectorLanguage = DirEn | DirHi | DirMixed

fun convertLanguage :: "DirectorLanguage \<Rightarrow> LanguageCode" where
  "convertLanguage DirEn = En"
| "convertLanguage DirHi = Hi"
| "convertLanguage DirMixed = Mixed"

record SceneMetadata =
  md_title :: string
  md_genre :: string
  md_setting :: string
  md_logline :: string

record ActorUpdate =
  ua_id :: string
  ua_language :: DirectorLanguage
  ua_style :: string

record Directive =
  dl_actorId :: string
  dl_language :: DirectorLanguage
  dl_text :: string
  dl_beatDelta :: int

text \<open>
  The parsed JSON object. A key that is missing from the object is \<open>None\<close>.
\<close>

record DirectorResponse =
  dr_sceneMetadata :: "SceneMetadata option"
  dr_updatedActors :: "ActorUpdate list option"
  dr_newLines :: "Directive list option"

text \<open>
  What one request meets outside the program: the reply of the chat completion service
  (\<open>None\<close> when the call throws before a JSON object is parsed: no API key, an HTTP error,
  no content, text that is not JSON), the outcome of each speech synthesis call (\<open>None\<close>
  when \<open>synthesizeLine\<close> throws; the first argument is the position of the call among the
  parallel calls), the value of \<open>Math.random()\<close> and the values of \<open>Date.now()\<close>. A value of
  \<open>Date.now()\<close> is a time value, an integer of a magnitude of at most \<open>8.64 * 10^15\<close>, so
  that the sums \<open>now + index * 1000\<close> of the time stamps, for the at most six lines of a
  turn, are below \<open>2^53\<close> and exact.
\<close>

record Env =
  director_reply :: "DirectorResponse option"
  synthesizeLine :: "nat \<Rightarrow> string \<Rightarrow> string \<Rightarrow> LanguageCode \<Rightarrow> string option"
  random :: rat
  now_scene :: int
  now_lines :: int
  now_updated :: int

text \<open>The end of \<open>runDirectorAgent\<close>: the structure of the parsed reply is validated.\<close>

definition runDirectorAgent :: "Env \<Rightarrow> exn + DirectorResponse" where
  "runDirectorAgent env =
     (case director_reply env of
        None \<Rightarrow> Inl DirectorFailed
      | Some directorResponse \<Rightarrow>
          (if dr_sceneMetadata directorResponse = None \<or> dr_newLines directorResponse = None
           then Inl DirectorFailed
           else Inr directorResponse))"

section \<open>The turn handler (pages/api/scene/turn)\<close>

datatype HttpError = MethodNotAllowed | UserCommandRequired | InternalServerError

record TurnResponse =
  resp_sceneState :: SceneState
  resp_newLines :: "Line list"

text \<open>\<open>Math.max(...lines.map(l => l.beatIndex), 0)\<close>, guarded by \<open>lines.length > 0\<close>.\<close>

definition currentBeatIndexOf :: "SceneState \<Rightarrow> int" where
  "currentBeatIndexOf s =
     (if length (scene_lines s) > 0
      then Max (set (map line_beatIndex (scene_lines s) @ [0]))
      else 0)"

definition currentScene :: "Env \<Rightarrow> SceneState option \<Rightarrow> SceneState \<times> int" where
  "currentScene env sceneState =
     (case sceneState of
        None \<Rightarrow> (createDefaultScene (now_scene env), 0)
      | Some s \<Rightarrow> (s, currentBeatIndexOf s))"

text \<open>The last step of both paths: the new lines are appended, the scene is summarized.\<close>

definition updatedScene :: "SceneState \<Rightarrow> Line list \<Rightarrow> int \<Rightarrow> TurnResponse" where
  "updatedScene currentSceneState linesWithAudio now =
     (let updatedLines = scene_lines currentSceneState @ linesWithAudio;
          updatedSummary =
            summarizeScene (scene_summary currentSceneState) updatedLines
              (scene_actors currentSceneState)
      in \<lparr>resp_sceneState =
            currentSceneState\<lparr>scene_lines := updatedLines, scene_summary := updatedSummary,
              scene_updatedAt := now\<rparr>,
          resp_newLines = linesWithAudio\<rparr>)"

text \<open>The \<open>catch\<close> block of the director call: the mock director and the mock speech.\<close>

definition fallbackTurn :: "Env \<Rightarrow> SceneState \<Rightarrow> string \<Rightarrow> int \<Rightarrow> exn + TurnResponse" where
  "fallbackTurn env currentSceneState userCommand currentBeatIndex =
     (case generateMockLines currentSceneState userCommand currentBeatIndex (now_lines env)
             (random env) of
        Inl e \<Rightarrow> Inl e
      | Inr newLines \<Rightarrow>
          (let actorsMap = map (\<lambda>actor. (actor_id actor, actor_voiceId actor))
                 (scene_actors currentSceneState);
               linesWithAudio = processLinesWithTTS newLines actorsMap
           in Inr (updatedScene currentSceneState linesWithAudio (now_updated env))))"

text \<open>
  The assignments to \<open>currentSceneState\<close>: the scene metadata, then the actor patches. An
  actor whose id is a key of \<open>updatedActorMap\<close> takes the language and the style of the
  patch; the other actors, and the ids, stay.
\<close>

definition applyMetadata :: "DirectorResponse \<Rightarrow> SceneState \<Rightarrow> SceneState" where
  "applyMetadata directorResponse s =
     (case dr_sceneMetadata directorResponse of
        None \<Rightarrow> s
      | Some m \<Rightarrow>
          s\<lparr>scene_title := md_title m, scene_genre := md_genre m,
            scene_setting := md_setting m, scene_logline := md_logline m\<rparr>)"

definition patchActor :: "(string \<times> ActorUpdate) list \<Rightarrow> Actor \<Rightarrow> Actor" where
  "patchActor updatedActorMap actor =
     (case Map_get updatedActorMap (actor_id actor) of
        Some update \<Rightarrow>
          actor\<lparr>actor_language := convertLanguage (ua_language update),
            actor_style := ua_style update\<rparr>
      | None \<Rightarrow> actor)"

definition applyActorUpdates :: "DirectorResponse \<Rightarrow> SceneState \<Rightarrow> SceneState" where
  "applyActorUpdates directorResponse s =
     (case dr_updatedActors directorResponse of
        None \<Rightarrow> s
      | Some uas \<Rightarrow>
          (if length uas > 0 then
             s\<lparr>scene_actors :=
                 map (patchActor (map (\<lambda>ua. (ua_id ua, ua)) uas)) (scene_actors s)\<rparr>
           else s))"

text \<open>
  The \<open>map\<close> over \<open>linesToProcess\<close> that creates the \<open>Line\<close> objects: the running beat
  index is raised, by the JavaScript sum \<open>runningBeatIndex += 1\<close> for a \<open>beatDelta\<close> that is
  1, before it is assigned, and the first directive whose actor is not found throws.
\<close>

fun makeLines :: "Actor list \<Rightarrow> int \<Rightarrow> nat \<Rightarrow> int \<Rightarrow> Directive list \<Rightarrow> exn + Line list" where
  "makeLines actors now index runningBeatIndex [] = Inr []"
| "makeLines actors now index runningBeatIndex (d # ds) =
     (let running =
            (if dl_beatDelta d = 1 then plus_one runningBeatIndex else runningBeatIndex) in
      case find (\<lambda>a. actor_id a = dl_actorId d) actors of
        None \<Rightarrow> Inl (InvalidActorId (dl_actorId d))
      | Some actor \<Rightarrow>
          (case makeLines actors now (index + 1) running ds of
             Inl e \<Rightarrow> Inl e
           | Inr ls \<Rightarrow>
               Inr (\<lparr>line_id = ''line-'' @ show_int now @ ''-'' @ show_nat index,
                     line_actorId = dl_actorId d,
                     line_text = dl_text d,
                     line_timestamp = now + int index * 1000,
                     line_beatIndex = running,
                     line_audioUrl = []\<rparr> # ls)))"

text \<open>
  One of the parallel synthesis calls: the language is that of the first directive of the
  whole response with the same actor and text, else the actor's; a call that throws
  leaves the line as it is.
\<close>

definition synthesizeOne ::
  "Env \<Rightarrow> Directive list \<Rightarrow> (string \<times> Actor) list \<Rightarrow> nat \<Rightarrow> Line \<Rightarrow> Line" where
  "synthesizeOne env directives actorMap i line =
     (case Map_get actorMap (line_actorId line) of
        None \<Rightarrow> line
      | Some actor \<Rightarrow>
          (let lineLanguage =
                 map_option dl_language
                   (find (\<lambda>dl. dl_actorId dl = line_actorId line \<and> dl_text dl = line_text line)
                      directives);
               languageToUse =
                 (case lineLanguage of
                    Some l \<Rightarrow> convertLanguage l
                  | None \<Rightarrow> actor_language actor)
           in case synthesizeLine env i (line_text line) (actor_voiceId actor) languageToUse of
                Some audioUrl \<Rightarrow> line\<lparr>line_audioUrl := audioUrl\<rparr>
              | None \<Rightarrow> line))"

definition synthesizeAll ::
  "Env \<Rightarrow> Directive list \<Rightarrow> (string \<times> Actor) list \<Rightarrow> Line list \<Rightarrow> Line list" where
  "synthesizeAll env directives actorMap lines =
     map (\<lambda>(i, line). synthesizeOne env directives actorMap i line) (enumerate 0 lines)"

text \<open>
  The path after a director response: the result, and \<open>currentSceneState\<close> as the
  assignments have left it.
\<close>

definition primaryTurn ::
  "Env \<Rightarrow> SceneState \<Rightarrow> DirectorResponse \<Rightarrow> int \<Rightarrow> (exn + TurnResponse) \<times> SceneState" where
  "primaryTurn env currentSceneState directorResponse currentBeatIndex =
     (let cur = applyActorUpdates directorResponse (applyMetadata directorResponse currentSceneState)
      in case dr_newLines directorResponse of
           None \<Rightarrow> (Inl NoDialogueLines, cur)
         | Some directives \<Rightarrow>
             (if length directives = 0 then (Inl NoDialogueLines, cur)
              else
                (let linesToProcess = take 6 directives in
                 case makeLines (scene_actors cur) (now_lines env) 0 currentBeatIndex
                        linesToProcess of
                   Inl e \<Rightarrow> (Inl e, cur)
                 | Inr newLines \<Rightarrow>
                     (let actorMap = map (\<lambda>actor. (actor_id actor, actor)) (scene_actors cur);
                          linesWithAudio = synthesizeAll env directives actorMap newLines
                      in (Inr (updatedScene cur linesWithAudio (now_updated env)), cur)))))"

text \<open>
  The handler. The first component is the response; an exception that reaches the outer
  \<open>catch\<close> is answered with status 500. The second component is the scene object of the
  request body as the handler leaves it: \<open>currentSceneState\<close> is that same object when the
  request carries a scene, so the assignments of the primary path are made to it.
\<close>

definition respond :: "exn + TurnResponse \<Rightarrow> HttpError + TurnResponse" where
  "respond result = (case result of Inl e \<Rightarrow> Inl InternalServerError | Inr r \<Rightarrow> Inr r)"

definition handler_run ::
  "Env \<Rightarrow> string \<Rightarrow> SceneState option \<Rightarrow> string \<Rightarrow>
     (HttpError + TurnResponse) \<times> SceneState option" where
  "handler_run env method sceneState userCommand =
     (if method \<noteq> ''POST'' then (Inl MethodNotAllowed, sceneState)
      else if userCommand = [] then (Inl UserCommandRequired, sceneState)
      else
        (let (currentSceneState, currentBeatIndex) = currentScene env sceneState in
         case runDirectorAgent env of
           Inl e \<Rightarrow>
             (respond (fallbackTurn env currentSceneState userCommand currentBeatIndex),
              sceneState)
         | Inr directorResponse \<Rightarrow>
             (let (result, cur) =
                    primaryTurn env currentSceneState directorResponse currentBeatIndex
              in (respond result, map_option (\<lambda>s. cur) sceneState))))"

definition handler :: "Env \<Rightarrow> string \<Rightarrow> SceneState option \<Rightarrow> string \<Rightarrow> HttpError + TurnResponse" where
  "handler env method sceneState userCommand = fst (handler_run env method sceneState userCommand)"

definition request_scene_after ::
  "Env \<Rightarrow> string \<Rightarrow> SceneState option \<Rightarrow> string \<Rightarrow> SceneState option" where
  "request_scene_after env method sceneState userCommand =
     snd (handler_run env method sceneState userCommand)"

section \<open>Notions of the specification\<close>

text \<open>The lines of the scene a request carries: none when it carries no scene.\<close>

definition prior_lines :: "SceneState option \<Rightarrow> Line list" where
  "prior_lines sceneState = (case sceneState of None \<Rightarrow> [] | Some s \<Rightarrow> scene_lines s)"

text \<open>Every line of a scene names an actor of its roster.\<close>

definition lines_resolve :: "SceneState \<Rightarrow> bool" where
  "lines_resolve s =
     list_all (\<lambda>l. find (\<lambda>a. actor_id a = line_actorId l) (scene_actors s) \<noteq> None)
       (scene_lines s)"

section \<open>Example inputs\<close>

text \<open>Scenes: a line for the summarizer, the default scene without actors, the default
  scene with one line, and the default scene with one line whose beat index is \<open>2^53\<close>.\<close>

definition angry_line :: Line where
  "angry_line = \<lparr>line_id = ''line-0-0'', line_actorId = ''actor-1'', line_text = ''I am angry'',
     line_timestamp = 0, line_beatIndex = 1, line_audioUrl = []\<rparr>"

definition empty_cast_scene :: SceneState where
  "empty_cast_scene = (createDefaultScene 0)\<lparr>scene_actors := []\<rparr>"

definition one_line_scene :: SceneState where
  "one_line_scene =
     (createDefaultScene 0)\<lparr>scene_lines :=
        [\<lparr>line_id = ''line-0-0'', line_actorId = ''actor-1'', line_text = ''Hello.'',
          line_timestamp = 0, line_beatIndex = 2, line_audioUrl = []\<rparr>]\<rparr>"

definition big_beat_scene :: SceneState where
  "big_beat_scene =
     (createDefaultScene 0)\<lparr>scene_lines :=
        [\<lparr>line_id = ''line-0-0'', line_actorId = ''actor-1'', line_text = ''Hello.'',
          line_timestamp = 0, line_beatIndex = 9007199254740992, line_audioUrl = []\<rparr>]\<rparr>"

text \<open>A request whose director call throws, with \<open>Math.random()\<close> at one half.\<close>

definition failing_env :: Env where
  "failing_env =
     \<lparr>director_reply = None, synthesizeLine = (\<lambda>i text voiceId language. None),
      random = 1 / 2, now_scene = 0, now_lines = 1, now_updated = 2\<rparr>"

text \<open>Director responses: seven directives of which the last names an unknown actor, one
  directive that names an unknown actor, and three directives of known actors.\<close>

definition directive_of :: "string \<Rightarrow> Directive" where
  "directive_of actorId =
     \<lparr>dl_actorId = actorId, dl_language = DirEn, dl_text = ''Who is there?'', dl_beatDelta = 0\<rparr>"

definition seven_directives :: "Directive list" where
  "seven_directives = replicate 6 (directive_of ''actor-1'') @ [directive_of ''ghost'']"

definition seven_response :: DirectorResponse where
  "seven_response =
     \<lparr>dr_sceneMetadata =
        Some \<lparr>md_title = ''The Cellar'', md_genre = ''horror'', md_setting = ''A cellar'',
          md_logline = ''Something stirs below.''\<rparr>,
      dr_updatedActors = Some [],
      dr_newLines = Some seven_directives\<rparr>"

definition seven_env :: Env where
  "seven_env = failing_env\<lparr>director_reply := Some seven_response\<rparr>"

definition ghost_env :: Env where
  "ghost_env =
     seven_env\<lparr>director_reply :=
       Some (seven_response\<lparr>dr_newLines := Some [directive_of ''ghost'']\<rparr>)\<rparr>"

definition three_directives :: "Directive list" where
  "three_directives =
     [\<lparr>dl_actorId = ''actor-1'', dl_language = DirEn, dl_text = ''Who is there?'',
        dl_beatDelta = 1\<rparr>,
      \<lparr>dl_actorId = ''actor-2'', dl_language = DirHi, dl_text = ''Koi nahin.'',
        dl_beatDelta = 0\<rparr>,
      \<lparr>dl_actorId = ''actor-3'', dl_language = DirMixed, dl_text = ''Chalo, let us go.'',
        dl_beatDelta = 1\<rparr>]"

definition three_response :: DirectorResponse where
  "three_response = seven_response\<lparr>dr_newLines := Some three_directives\<rparr>"

definition three_env :: Env where
  "three_env =
     \<lparr>director_reply = Some three_response,
      synthesizeLine = (\<lambda>i text voiceId language. Some ''data:audio/mpeg;base64,AAAA''),
      random = 1 / 2, now_scene = 0, now_lines = 1, now_updated = 2\<rparr>"

text \<open>Synthesis outcomes: the second call throws.\<close>

definition fail_second :: "nat \<Rightarrow> string \<Rightarrow> string \<Rightarrow> LanguageCode \<Rightarrow> string option" where
  "fail_second i text voiceId language =
     (if i = 1 then None else Some ''data:audio/mpeg;base64,AAAA'')"

section \<open>Facts about the summarizer\<close>




lemma slice_last_Nil [simp]: "slice_last n [] = []"
  by (simp add: slice_last_def)

lemma slice_last_nonempty: "xs \<noteq> [] \<Longrightarrow> slice_last 10 xs \<noteq> []"
  by (cases xs) (auto simp: slice_last_def)

lemma summarizeScene_no_lines:
  "summarizeScene prev [] actors = (if prev \<noteq> [] then prev else ''Scene is beginning.'')"
  by (simp add: summarizeScene_def)

lemma trim_Nil [simp]: "trim [] = []"
  by (simp add: trim_def)

lemma summarizeScene_cut:
  assumes "lines \<noteq> []" and "trim prev \<noteq> []"
  shows "length (summarizeScene prev lines actors) \<le> 800"
proof -
  have ne: "slice_last 10 lines \<noteq> []" using assms(1) by (rule slice_last_nonempty)
  have p: "prev \<noteq> []" using assms(2) by auto
  show ?thesis
    using ne p assms(2) by (auto simp: summarizeScene_def Let_def substring0_def min_def)
qed










lemma trim_no_break_space: "trim [CHR 0xA0] = []"
  by (simp add: trim_def is_space_def)






section \<open>Facts about the mock director\<close>

lemma mockLine_ok:
  assumes "actors \<noteq> []"
  shows "\<exists>l. mockLine actors cmd now beat i = Inr l \<and>
           line_actorId l = actor_id (actors ! (i mod length actors)) \<and>
           line_beatIndex l = beat \<and> line_audioUrl l = []"
proof -
  have "i mod length actors < length actors"
    and "(i mod length actors + 1) mod length actors < length actors"
    using assms by simp_all
  then show ?thesis
    by (simp add: mockLine_def array_get_def Let_def)
qed

lemma mockLoop_ok:
  assumes "actors \<noteq> []"
  shows "\<exists>ls. mockLoop actors cmd now beat i k = Inr ls \<and> length ls = k \<and>
           (\<forall>l\<in>set ls. line_actorId l \<in> actor_id ` set actors \<and> line_beatIndex l = beat)"
proof (induction k arbitrary: i)
  case 0
  then show ?case by simp
next
  case (Suc k)
  obtain l where l: "mockLine actors cmd now beat i = Inr l"
    "line_actorId l = actor_id (actors ! (i mod length actors))" "line_beatIndex l = beat"
    using mockLine_ok [OF assms] by blast
  obtain ls where ls: "mockLoop actors cmd now beat (i + 1) k = Inr ls" "length ls = k"
    "\<forall>l\<in>set ls. line_actorId l \<in> actor_id ` set actors \<and> line_beatIndex l = beat"
    using Suc.IH by blast
  have "actors ! (i mod length actors) \<in> set actors" using assms by simp
  then have "line_actorId l \<in> actor_id ` set actors" using l(2) by simp
  then show ?case using l ls by simp
qed

lemma plus_one_ge: "x \<le> plus_one x"
  by (simp add: plus_one_def)

lemma plus_one_exact: "- (2 ^ 53) \<le> x \<Longrightarrow> x < 2 ^ 53 \<Longrightarrow> plus_one x = x + 1"
  by (simp add: plus_one_def)

lemma numLines_range:
  assumes "0 \<le> r" and "r < 1"
  shows "nat (3 + \<lfloor>r * 2\<rfloor>) = 3 \<or> nat (3 + \<lfloor>r * 2\<rfloor>) = 4"
proof -
  have "0 \<le> \<lfloor>r * 2\<rfloor>" using assms(1) by simp
  moreover have "\<lfloor>r * 2\<rfloor> < 2" using assms(2) by (simp add: floor_less_iff)
  ultimately show ?thesis by linarith
qed

lemma generateMockLines_ok:
  assumes "0 \<le> r" and "r < 1" and "scene_actors s \<noteq> []"
  shows "\<exists>ls. generateMockLines s cmd beat now r = Inr ls \<and>
           (length ls = 3 \<or> length ls = 4) \<and>
           (\<forall>l\<in>set ls. line_actorId l \<in> actor_id ` set (scene_actors s) \<and>
              line_beatIndex l = plus_one beat)"
proof -
  obtain ls where ls: "mockLoop (scene_actors s) cmd now (plus_one beat) 0 (nat (3 + \<lfloor>r * 2\<rfloor>)) = Inr ls"
    "length ls = nat (3 + \<lfloor>r * 2\<rfloor>)"
    "\<forall>l\<in>set ls. line_actorId l \<in> actor_id ` set (scene_actors s) \<and> line_beatIndex l = plus_one beat"
    using mockLoop_ok [OF assms(3)] by blast
  then show ?thesis
    using assms(3) numLines_range [OF assms(1,2)]
    by (auto simp: generateMockLines_def Let_def)
qed

lemma generateMockLines_no_actors:
  "scene_actors s = [] \<Longrightarrow> generateMockLines s cmd beat now r = Inr []"
  by (simp add: generateMockLines_def)

section \<open>Facts about the turn handler\<close>

lemma updatedScene_lines [simp]:
  "scene_lines (resp_sceneState (updatedScene cur new t)) = scene_lines cur @ new"
  by (simp add: updatedScene_def Let_def)

lemma updatedScene_newLines [simp]: "resp_newLines (updatedScene cur new t) = new"
  by (simp add: updatedScene_def Let_def)

lemma updatedScene_actors [simp]:
  "scene_actors (resp_sceneState (updatedScene cur new t)) = scene_actors cur"
  by (simp add: updatedScene_def Let_def)

lemma updatedScene_genre [simp]:
  "scene_genre (resp_sceneState (updatedScene cur new t)) = scene_genre cur"
  by (simp add: updatedScene_def Let_def)

lemma applyMetadata_lines [simp]: "scene_lines (applyMetadata dr s) = scene_lines s"
  by (simp add: applyMetadata_def split: option.splits)

lemma applyMetadata_actors [simp]: "scene_actors (applyMetadata dr s) = scene_actors s"
  by (simp add: applyMetadata_def split: option.splits)

lemma applyMetadata_genre:
  "dr_sceneMetadata dr = Some m \<Longrightarrow> scene_genre (applyMetadata dr s) = md_genre m"
  by (simp add: applyMetadata_def)

lemma patchActor_id [simp]: "actor_id (patchActor m a) = actor_id a"
  by (simp add: patchActor_def split: option.splits)

lemma applyActorUpdates_lines [simp]: "scene_lines (applyActorUpdates dr s) = scene_lines s"
  by (simp add: applyActorUpdates_def split: option.splits)

lemma applyActorUpdates_genre [simp]: "scene_genre (applyActorUpdates dr s) = scene_genre s"
  by (simp add: applyActorUpdates_def split: option.splits)

lemma applyActorUpdates_ids [simp]:
  "map actor_id (scene_actors (applyActorUpdates dr s)) = map actor_id (scene_actors s)"
  by (simp add: applyActorUpdates_def comp_def split: option.splits)

lemma applyActorUpdates_id_set [simp]:
  "actor_id ` set (scene_actors (applyActorUpdates dr s)) = actor_id ` set (scene_actors s)"
  using applyActorUpdates_ids [of dr s] by (metis set_map)

lemma find_actor_None: "find (\<lambda>a. actor_id a = k) actors = None \<longleftrightarrow> k \<notin> actor_id ` set actors"
  by (auto simp: find_None_iff)

lemma makeLines_props:
  "makeLines actors now idx run ds = Inr ls \<Longrightarrow>
     length ls = length ds \<and>
     map line_actorId ls = map dl_actorId ds \<and>
     map line_text ls = map dl_text ds \<and>
     (\<forall>l\<in>set ls. line_audioUrl l = [] \<and> line_actorId l \<in> actor_id ` set actors \<and>
        run \<le> line_beatIndex l) \<and>
     sorted (map line_beatIndex ls)"
proof (induction ds arbitrary: idx run ls)
  case Nil
  then show ?case by simp
next
  case (Cons d ds)
  let ?run = "if dl_beatDelta d = 1 then plus_one run else run"
  from Cons.prems obtain a where a: "find (\<lambda>a. actor_id a = dl_actorId d) actors = Some a"
    by (auto simp: Let_def split: option.splits)
  from Cons.prems a obtain rest where
    rest: "makeLines actors now (idx + 1) ?run ds = Inr rest"
    and ls: "ls = \<lparr>line_id = ''line-'' @ show_int now @ ''-'' @ show_nat idx,
                  line_actorId = dl_actorId d, line_text = dl_text d,
                  line_timestamp = now + int idx * 1000, line_beatIndex = ?run,
                  line_audioUrl = []\<rparr> # rest"
    by (auto simp: Let_def split: sum.splits)
  have known: "dl_actorId d \<in> actor_id ` set actors"
    using a find_actor_None [of "dl_actorId d" actors] by auto
  have ih: "length rest = length ds \<and> map line_actorId rest = map dl_actorId ds \<and>
     map line_text rest = map dl_text ds \<and>
     (\<forall>l\<in>set rest. line_audioUrl l = [] \<and> line_actorId l \<in> actor_id ` set actors \<and>
        ?run \<le> line_beatIndex l) \<and> sorted (map line_beatIndex rest)"
    using Cons.IH [OF rest] .
  have le: "run \<le> ?run" by (simp add: plus_one_ge)
  then have "\<forall>l\<in>set rest. run \<le> line_beatIndex l" using ih by force
  then show ?case using ih ls known le by auto
qed

lemma makeLines_fails:
  "\<exists>d\<in>set ds. dl_actorId d \<notin> actor_id ` set actors \<Longrightarrow>
     \<exists>e. makeLines actors now idx run ds = Inl e"
proof (induction ds arbitrary: idx run)
  case Nil
  then show ?case by simp
next
  case (Cons d ds)
  show ?case
  proof (cases "find (\<lambda>a. actor_id a = dl_actorId d) actors")
    case None
    then show ?thesis by (simp add: Let_def)
  next
    case (Some a)
    then have "dl_actorId d \<in> actor_id ` set actors"
      using find_actor_None [of "dl_actorId d" actors] by auto
    then have "\<exists>d\<in>set ds. dl_actorId d \<notin> actor_id ` set actors" using Cons.prems by auto
    then obtain e where
      "makeLines actors now (idx + 1) (if dl_beatDelta d = 1 then plus_one run else run) ds = Inl e"
      using Cons.IH by blast
    then show ?thesis using Some by (simp add: Let_def)
  qed
qed

lemma makeLines_succeeds:
  "\<forall>d\<in>set ds. dl_actorId d \<in> actor_id ` set actors \<Longrightarrow>
     \<exists>ls. makeLines actors now idx run ds = Inr ls"
proof (induction ds arbitrary: idx run)
  case Nil
  then show ?case by simp
next
  case (Cons d ds)
  then obtain a where a: "find (\<lambda>a. actor_id a = dl_actorId d) actors = Some a"
    using find_actor_None [of "dl_actorId d" actors] by auto
  obtain ls where
    "makeLines actors now (idx + 1) (if dl_beatDelta d = 1 then plus_one run else run) ds = Inr ls"
    using Cons by fastforce
  then show ?case using a by (simp add: Let_def)
qed

lemma makeLines_step:
  "makeLines actors now idx run ds = Inr ls \<Longrightarrow> i < length ds \<Longrightarrow>
     line_beatIndex (ls ! i) =
       (if dl_beatDelta (ds ! i) = 1
        then plus_one (if i = 0 then run else line_beatIndex (ls ! (i - 1)))
        else (if i = 0 then run else line_beatIndex (ls ! (i - 1))))"
proof (induction ds arbitrary: idx run ls i)
  case Nil
  then show ?case by simp
next
  case (Cons d ds)
  let ?run = "if dl_beatDelta d = 1 then plus_one run else run"
  from Cons.prems(1) obtain l rest where
    rest: "makeLines actors now (idx + 1) ?run ds = Inr rest"
    and ls: "ls = l # rest" "line_beatIndex l = ?run"
    by (auto simp: Let_def split: option.splits sum.splits)
  show ?case
  proof (cases i)
    case 0
    then show ?thesis using ls by simp
  next
    case (Suc j)
    then have j: "j < length ds" using Cons.prems(2) by simp
    have ih: "line_beatIndex (rest ! j) =
       (if dl_beatDelta (ds ! j) = 1
        then plus_one (if j = 0 then ?run else line_beatIndex (rest ! (j - 1)))
        else (if j = 0 then ?run else line_beatIndex (rest ! (j - 1))))"
      using Cons.IH [OF rest j] .
    have prev: "line_beatIndex (ls ! (i - 1)) =
        (if j = 0 then ?run else line_beatIndex (rest ! (j - 1)))"
      using ls Suc by (cases j) simp_all
    have "line_beatIndex (ls ! i) = line_beatIndex (rest ! j)" using ls Suc by simp
    moreover have "(d # ds) ! i = ds ! j" using Suc by simp
    moreover have "i \<noteq> 0" using Suc by simp
    ultimately show ?thesis using ih prev by simp
  qed
qed

lemma processLinesWithTTS_length [simp]: "length (processLinesWithTTS ls m) = length ls"
  by (simp add: processLinesWithTTS_def)

lemma processLinesWithTTS_actorId [simp]:
  "map line_actorId (processLinesWithTTS ls m) = map line_actorId ls"
  by (simp add: processLinesWithTTS_def comp_def split: option.splits)

lemma processLinesWithTTS_beatIndex [simp]:
  "map line_beatIndex (processLinesWithTTS ls m) = map line_beatIndex ls"
  by (simp add: processLinesWithTTS_def comp_def split: option.splits)

lemma synthesizeOne_actorId [simp]: "line_actorId (synthesizeOne env ds am i l) = line_actorId l"
  by (simp add: synthesizeOne_def Let_def split: option.splits)

lemma synthesizeOne_beatIndex [simp]:
  "line_beatIndex (synthesizeOne env ds am i l) = line_beatIndex l"
  by (simp add: synthesizeOne_def Let_def split: option.splits)

lemma synthesizeAll_length [simp]: "length (synthesizeAll env ds am ls) = length ls"
  by (simp add: synthesizeAll_def)

lemma synthesizeAll_nth:
  "i < length ls \<Longrightarrow> synthesizeAll env ds am ls ! i = synthesizeOne env ds am i (ls ! i)"
  by (simp add: synthesizeAll_def nth_enumerate_eq)

lemma synthesizeAll_actorId [simp]:
  "map line_actorId (synthesizeAll env ds am ls) = map line_actorId ls"
  by (rule nth_equalityI) (simp_all add: synthesizeAll_nth)

lemma synthesizeAll_beatIndex [simp]:
  "map line_beatIndex (synthesizeAll env ds am ls) = map line_beatIndex ls"
  by (rule nth_equalityI) (simp_all add: synthesizeAll_nth)

lemma generateMockLines_any:
  "\<exists>ls. generateMockLines s cmd beat now r = Inr ls \<and>
     length ls = (if scene_actors s = [] then 0 else nat (3 + \<lfloor>r * 2\<rfloor>)) \<and>
     (\<forall>l\<in>set ls. line_actorId l \<in> actor_id ` set (scene_actors s) \<and>
        line_beatIndex l = plus_one beat)"
proof (cases "scene_actors s = []")
  case True
  then show ?thesis by (simp add: generateMockLines_def)
next
  case False
  then show ?thesis
    using mockLoop_ok [OF False, of cmd now "plus_one beat" 0 "nat (3 + \<lfloor>r * 2\<rfloor>)"]
    by (auto simp: generateMockLines_def Let_def)
qed

lemma fallbackTurn_ok:
  "\<exists>ls. fallbackTurn env cur cmd beat = Inr (updatedScene cur ls (now_updated env)) \<and>
     length ls = (if scene_actors cur = [] then 0 else nat (3 + \<lfloor>random env * 2\<rfloor>)) \<and>
     (\<forall>l\<in>set ls. line_actorId l \<in> actor_id ` set (scene_actors cur) \<and>
        line_beatIndex l = plus_one beat)"
proof -
  obtain ls where ls: "generateMockLines cur cmd beat (now_lines env) (random env) = Inr ls"
    "length ls = (if scene_actors cur = [] then 0 else nat (3 + \<lfloor>random env * 2\<rfloor>))"
    "\<forall>l\<in>set ls. line_actorId l \<in> actor_id ` set (scene_actors cur) \<and> line_beatIndex l = plus_one beat"
    using generateMockLines_any by blast
  let ?m = "map (\<lambda>actor. (actor_id actor, actor_voiceId actor)) (scene_actors cur)"
  let ?out = "processLinesWithTTS ls ?m"
  have "set (map line_actorId ?out) = set (map line_actorId ls)"
    and "set (map line_beatIndex ?out) = set (map line_beatIndex ls)" by simp_all
  then have "\<forall>l\<in>set ?out. line_actorId l \<in> actor_id ` set (scene_actors cur) \<and>
      line_beatIndex l = plus_one beat"
    using ls(3) by (metis (no_types, lifting) image_iff set_map)
  moreover have "fallbackTurn env cur cmd beat = Inr (updatedScene cur ?out (now_updated env))"
    using ls(1) by (simp add: fallbackTurn_def Let_def)
  moreover have "length ?out = (if scene_actors cur = [] then 0 else nat (3 + \<lfloor>random env * 2\<rfloor>))"
    using ls(2) by simp
  ultimately show ?thesis by blast
qed

lemma primaryTurn_snd:
  "snd (primaryTurn env cur0 dr beat) = applyActorUpdates dr (applyMetadata dr cur0)"
  by (simp add: primaryTurn_def Let_def split: option.splits sum.splits)

lemma primaryTurn_Inr:
  assumes "fst (primaryTurn env cur0 dr beat) = Inr r"
  shows "\<exists>ds ls. dr_newLines dr = Some ds \<and> ds \<noteq> [] \<and>
     makeLines (scene_actors (applyActorUpdates dr (applyMetadata dr cur0))) (now_lines env) 0 beat
       (take 6 ds) = Inr ls \<and>
     r = updatedScene (applyActorUpdates dr (applyMetadata dr cur0))
           (synthesizeAll env ds
              (map (\<lambda>actor. (actor_id actor, actor))
                 (scene_actors (applyActorUpdates dr (applyMetadata dr cur0)))) ls)
           (now_updated env)"
  using assms by (auto simp: primaryTurn_def Let_def split: option.splits sum.splits if_splits)

lemma primaryTurn_success:
  assumes "dr_newLines dr = Some ds" and "ds \<noteq> []"
    and "makeLines (scene_actors (applyActorUpdates dr (applyMetadata dr cur0))) (now_lines env) 0 beat
       (take 6 ds) = Inr ls"
  shows "fst (primaryTurn env cur0 dr beat) =
     Inr (updatedScene (applyActorUpdates dr (applyMetadata dr cur0))
           (synthesizeAll env ds
              (map (\<lambda>actor. (actor_id actor, actor))
                 (scene_actors (applyActorUpdates dr (applyMetadata dr cur0)))) ls)
           (now_updated env))"
  using assms by (simp add: primaryTurn_def Let_def)

lemma primaryTurn_failure:
  assumes "dr_newLines dr = Some ds"
    and "makeLines (scene_actors (applyActorUpdates dr (applyMetadata dr cur0))) (now_lines env) 0 beat
       (take 6 ds) = Inl e"
  shows "\<exists>e'. fst (primaryTurn env cur0 dr beat) = Inl e'"
  using assms by (simp add: primaryTurn_def Let_def)

lemma respond_Inr [simp]: "respond x = Inr r \<longleftrightarrow> x = Inr r"
  by (simp add: respond_def split: sum.splits)

lemma respond_Inl [simp]: "respond (Inl e) = Inl InternalServerError"
  by (simp add: respond_def)

lemma handler_POST:
  assumes "cmd \<noteq> []"
  shows "handler env ''POST'' st cmd =
     (case runDirectorAgent env of
        Inl e \<Rightarrow> respond (fallbackTurn env (fst (currentScene env st)) cmd (snd (currentScene env st)))
      | Inr dr \<Rightarrow>
          respond (fst (primaryTurn env (fst (currentScene env st)) dr (snd (currentScene env st)))))"
  using assms
  by (simp add: handler_def handler_run_def Let_def split_beta split: sum.splits)

lemma handler_Inr:
  assumes "handler env m st cmd = Inr r"
  shows "m = ''POST'' \<and> cmd \<noteq> [] \<and>
    ((\<exists>e. runDirectorAgent env = Inl e \<and>
        fallbackTurn env (fst (currentScene env st)) cmd (snd (currentScene env st)) = Inr r) \<or>
     (\<exists>dr. runDirectorAgent env = Inr dr \<and>
        fst (primaryTurn env (fst (currentScene env st)) dr (snd (currentScene env st))) = Inr r))"
proof -
  have m: "m = ''POST''" and c: "cmd \<noteq> []"
    using assms by (auto simp: handler_def handler_run_def split: if_splits)
  show ?thesis
    using assms m c unfolding m handler_POST [OF c]
    by (cases "runDirectorAgent env") auto
qed

lemma currentScene_Some [simp]: "currentScene env (Some s) = (s, currentBeatIndexOf s)"
  by (simp add: currentScene_def)

lemma currentScene_None [simp]: "currentScene env None = (createDefaultScene (now_scene env), 0)"
  by (simp add: currentScene_def)

lemma request_scene_after_lines:
  "map_option scene_lines (request_scene_after env m st cmd) = map_option scene_lines st"
  by (cases st)
    (auto simp: request_scene_after_def handler_run_def Let_def split_beta primaryTurn_snd
      split: sum.splits)

lemma currentScene_lines [simp]: "scene_lines (fst (currentScene env st)) = prior_lines st"
  by (cases st) (simp_all add: prior_lines_def createDefaultScene_def)

lemma updatedScene_title [simp]:
  "scene_title (resp_sceneState (updatedScene cur new t)) = scene_title cur"
  by (simp add: updatedScene_def Let_def)

lemma applyActorUpdates_title [simp]: "scene_title (applyActorUpdates dr s) = scene_title s"
  by (simp add: applyActorUpdates_def split: option.splits)

lemma applyMetadata_title:
  "dr_sceneMetadata dr = Some m \<Longrightarrow> scene_title (applyMetadata dr s) = md_title m"
  by (simp add: applyMetadata_def)

lemma runDirectorAgent_Inr:
  "runDirectorAgent env = Inr dr \<longleftrightarrow>
     director_reply env = Some dr \<and> dr_sceneMetadata dr \<noteq> None \<and> dr_newLines dr \<noteq> None"
  by (auto simp: runDirectorAgent_def split: option.splits)

lemma turn_lines:
  assumes "handler env m st cmd = Inr r"
  shows "scene_lines (resp_sceneState r) = prior_lines st @ resp_newLines r \<and>
    ((\<exists>e. runDirectorAgent env = Inl e) \<longrightarrow>
       length (resp_newLines r) =
         (if scene_actors (fst (currentScene env st)) = [] then 0
          else nat (3 + \<lfloor>random env * 2\<rfloor>))) \<and>
    (\<forall>dr ds. runDirectorAgent env = Inr dr \<and> dr_newLines dr = Some ds \<longrightarrow>
       ds \<noteq> [] \<and> length (resp_newLines r) = min 6 (length ds))"
proof -
  let ?cur = "fst (currentScene env st)"
  let ?beat = "snd (currentScene env st)"
  from handler_Inr [OF assms] consider
    (fallback) e where "runDirectorAgent env = Inl e" "fallbackTurn env ?cur cmd ?beat = Inr r"
  | (primary) dr where "runDirectorAgent env = Inr dr"
      "fst (primaryTurn env ?cur dr ?beat) = Inr r"
    by blast
  then show ?thesis
  proof cases
    case fallback
    obtain ls where "fallbackTurn env ?cur cmd ?beat = Inr (updatedScene ?cur ls (now_updated env))"
      "length ls = (if scene_actors ?cur = [] then 0 else nat (3 + \<lfloor>random env * 2\<rfloor>))"
      using fallbackTurn_ok by blast
    then show ?thesis using fallback by auto
  next
    case primary
    obtain ds ls where d: "dr_newLines dr = Some ds" "ds \<noteq> []"
      "makeLines (scene_actors (applyActorUpdates dr (applyMetadata dr ?cur))) (now_lines env) 0 ?beat
         (take 6 ds) = Inr ls"
      "r = updatedScene (applyActorUpdates dr (applyMetadata dr ?cur))
           (synthesizeAll env ds
              (map (\<lambda>actor. (actor_id actor, actor))
                 (scene_actors (applyActorUpdates dr (applyMetadata dr ?cur)))) ls)
           (now_updated env)"
      using primaryTurn_Inr [OF primary(2)] by blast
    have "length ls = min 6 (length ds)" using makeLines_props [OF d(3)] by simp
    then show ?thesis using primary(1) d by auto
  qed
qed

lemma failing_env_fallback: "runDirectorAgent failing_env = Inl DirectorFailed"
  by (simp add: runDirectorAgent_def failing_env_def)

lemma fallback_no_actors:
  assumes "runDirectorAgent env = Inl e" and "scene_actors s = []" and "cmd \<noteq> []"
  shows "handler env ''POST'' (Some s) cmd = Inr (updatedScene s [] (now_updated env))"
proof -
  obtain ls where "fallbackTurn env s cmd (currentBeatIndexOf s) =
      Inr (updatedScene s ls (now_updated env))" "length ls = 0"
    using fallbackTurn_ok [of env s cmd "currentBeatIndexOf s"] assms(2) by auto
  then show ?thesis using assms(1,3) by (simp add: handler_POST)
qed

lemma fallback_succeeds:
  assumes "runDirectorAgent env = Inl e" and "cmd \<noteq> []"
  shows "\<exists>ls. handler env ''POST'' st cmd =
           Inr (updatedScene (fst (currentScene env st)) ls (now_updated env)) \<and>
         length ls = (if scene_actors (fst (currentScene env st)) = [] then 0
                      else nat (3 + \<lfloor>random env * 2\<rfloor>))"
  using fallbackTurn_ok [of env "fst (currentScene env st)" cmd "snd (currentScene env st)"] assms
  by (auto simp: handler_POST)

lemma primary_unknown_actor:
  assumes "runDirectorAgent env = Inr dr" and "dr_newLines dr = Some ds"
    and "\<exists>d\<in>set (take 6 ds). dl_actorId d \<notin> actor_id ` set (scene_actors (fst (currentScene env st)))"
    and "cmd \<noteq> []"
  shows "handler env ''POST'' st cmd = Inl InternalServerError"
proof -
  let ?start = "fst (currentScene env st)"
  let ?patched = "applyActorUpdates dr (applyMetadata dr ?start)"
  have "\<exists>d\<in>set (take 6 ds). dl_actorId d \<notin> actor_id ` set (scene_actors ?patched)"
    using assms(3) by simp
  then obtain e where
    "makeLines (scene_actors ?patched) (now_lines env) 0 (snd (currentScene env st)) (take 6 ds) = Inl e"
    using makeLines_fails by blast
  then obtain e' where "fst (primaryTurn env ?start dr (snd (currentScene env st))) = Inl e'"
    using primaryTurn_failure [OF assms(2)] by blast
  then show ?thesis using assms(1,4) by (simp add: handler_POST)
qed

lemma primary_known_actors:
  assumes "runDirectorAgent env = Inr dr" and "dr_newLines dr = Some ds" and "ds \<noteq> []"
    and "\<forall>d\<in>set (take 6 ds). dl_actorId d \<in> actor_id ` set (scene_actors (fst (currentScene env st)))"
    and "cmd \<noteq> []"
  shows "\<exists>ls. length ls = min 6 (length ds) \<and>
     handler env ''POST'' st cmd =
       Inr (updatedScene (applyActorUpdates dr (applyMetadata dr (fst (currentScene env st)))) ls
              (now_updated env))"
proof -
  let ?start = "fst (currentScene env st)"
  let ?patched = "applyActorUpdates dr (applyMetadata dr ?start)"
  let ?am = "map (\<lambda>actor. (actor_id actor, actor)) (scene_actors ?patched)"
  have "\<forall>d\<in>set (take 6 ds). dl_actorId d \<in> actor_id ` set (scene_actors ?patched)"
    using assms(4) by simp
  then obtain ls where ls:
    "makeLines (scene_actors ?patched) (now_lines env) 0 (snd (currentScene env st)) (take 6 ds) = Inr ls"
    using makeLines_succeeds by blast
  have "length (synthesizeAll env ds ?am ls) = min 6 (length ds)"
    using makeLines_props [OF ls] by simp
  moreover have "handler env ''POST'' st cmd =
      Inr (updatedScene ?patched (synthesizeAll env ds ?am ls) (now_updated env))"
    using primaryTurn_success [OF assms(2,3) ls] assms(1,5) by (simp add: handler_POST)
  ultimately show ?thesis by blast
qed

lemma seven_env_primary: "runDirectorAgent seven_env = Inr seven_response"
  by (simp add: runDirectorAgent_def seven_env_def failing_env_def seven_response_def)

lemma seven_known:
  "\<forall>d\<in>set (take 6 seven_directives).
     dl_actorId d \<in> actor_id ` set (scene_actors (fst (currentScene seven_env None)))"
  by (simp add: seven_directives_def directive_of_def createDefaultScene_def defaultActors_def)

lemma seven_handler:
  "\<exists>ls. length ls = 6 \<and>
     handler seven_env ''POST'' None ''continue'' =
       Inr (updatedScene
              (applyActorUpdates seven_response
                 (applyMetadata seven_response (fst (currentScene seven_env None)))) ls
              (now_updated seven_env))"
proof -
  have n: "dr_newLines seven_response = Some seven_directives"
    by (simp add: seven_response_def)
  have ne: "seven_directives \<noteq> []" by (simp add: seven_directives_def)
  have "min 6 (length seven_directives) = 6" by (simp add: seven_directives_def)
  then show ?thesis
    using primary_known_actors [OF seven_env_primary n ne seven_known, of "''continue''"]
    by simp
qed

lemma default_ids:
  "map actor_id (scene_actors (fst (currentScene env None))) = [''actor-1'', ''actor-2'', ''actor-3'']"
  by (simp add: createDefaultScene_def defaultActors_def)

lemma default_genre: "scene_genre (fst (currentScene env None)) = ''drama''"
  by (simp add: createDefaultScene_def)

lemma horror_fallback:
  assumes "runDirectorAgent env = Inl e"
  shows "\<exists>r. handler env ''POST'' None ''Make it horror'' = Inr r \<and>
     scene_genre (resp_sceneState r) = ''drama'' \<and>
     map actor_id (scene_actors (resp_sceneState r)) = [''actor-1'', ''actor-2'', ''actor-3'']"
proof -
  obtain ls where "handler env ''POST'' None ''Make it horror'' =
      Inr (updatedScene (fst (currentScene env None)) ls (now_updated env))"
    using fallback_succeeds [OF assms, of "''Make it horror''" None] by auto
  then show ?thesis
    using default_ids [of env] default_genre [of env] by simp
qed

lemma horror_primary:
  assumes "runDirectorAgent env = Inr dr" and "handler env ''POST'' None cmd = Inr r"
  shows "(\<exists>m. dr_sceneMetadata dr = Some m \<and> scene_genre (resp_sceneState r) = md_genre m) \<and>
     map actor_id (scene_actors (resp_sceneState r)) = [''actor-1'', ''actor-2'', ''actor-3'']"
proof -
  let ?start = "fst (currentScene env None)"
  have "fst (primaryTurn env ?start dr (snd (currentScene env None))) = Inr r"
    using handler_Inr [OF assms(2)] assms(1) by auto
  then obtain ls where r: "r = updatedScene (applyActorUpdates dr (applyMetadata dr ?start)) ls
      (now_updated env)"
    using primaryTurn_Inr by blast
  obtain m where m: "dr_sceneMetadata dr = Some m"
    using assms(1) by (auto simp: runDirectorAgent_Inr)
  have "map actor_id (scene_actors (applyActorUpdates dr (applyMetadata dr ?start))) =
      [''actor-1'', ''actor-2'', ''actor-3'']"
    using default_ids [of env] by simp
  then show ?thesis
    using r m applyMetadata_genre [OF m] by simp
qed

lemma seven_handler_horror:
  "\<exists>r. handler seven_env ''POST'' None ''Make it horror'' = Inr r"
proof -
  have n: "dr_newLines seven_response = Some seven_directives"
    by (simp add: seven_response_def)
  have ne: "seven_directives \<noteq> []" by (simp add: seven_directives_def)
  show ?thesis
    using primary_known_actors [OF seven_env_primary n ne seven_known, of "''Make it horror''"]
    by auto
qed

lemma createInitialScene_horror:
  "scene_genre (createInitialScene now genreDraw settingDraw (Some ''Make it horror'')) =
     ''horror''"
  by (simp add: createInitialScene_def Let_def toLowerCase_def toLowerCase_char_def
      upper_letters_def lower_letters_def upper_latin1_def lower_latin1_def)

lemma find_append_first:
  "\<exists>x\<in>set xs. P x \<Longrightarrow> find P (xs @ ys) = find P xs"
  by (induction xs) auto

lemma find_take_6:
  assumes "\<exists>x\<in>set (take 6 ds). P x"
  shows "find P ds = find P (take 6 ds)"
  using find_append_first [OF assms, of "drop 6 ds"] by simp

lemma synthesizeOne_take_6:
  assumes "\<exists>d\<in>set (take 6 ds). dl_actorId d = line_actorId l \<and> dl_text d = line_text l"
  shows "synthesizeOne env ds am i l = synthesizeOne env (take 6 ds) am i l"
  using find_take_6 [OF assms] by (simp add: synthesizeOne_def cong: option.case_cong)

lemma synthesizeOne_env:
  "synthesizeLine env' = synthesizeLine env \<Longrightarrow>
     synthesizeOne env' ds am i l = synthesizeOne env ds am i l"
  by (simp add: synthesizeOne_def cong: option.case_cong)

lemma synthesizeAll_take_6:
  assumes "makeLines actors now idx run (take 6 ds) = Inr ls"
  shows "synthesizeAll env ds am ls = synthesizeAll env (take 6 ds) am ls"
proof (rule nth_equalityI)
  show "length (synthesizeAll env ds am ls) = length (synthesizeAll env (take 6 ds) am ls)"
    by simp
next
  fix i
  assume "i < length (synthesizeAll env ds am ls)"
  then have i: "i < length ls" by simp
  have p: "length ls = length (take 6 ds)" "map line_actorId ls = map dl_actorId (take 6 ds)"
    "map line_text ls = map dl_text (take 6 ds)"
    using makeLines_props [OF assms] by auto
  have "line_actorId (ls ! i) = dl_actorId (take 6 ds ! i)"
    using p(2) i by (metis length_map nth_map p(1))
  moreover have "line_text (ls ! i) = dl_text (take 6 ds ! i)"
    using p(3) i by (metis length_map nth_map p(1))
  moreover have "take 6 ds ! i \<in> set (take 6 ds)" using i p(1) by (metis nth_mem)
  ultimately have "\<exists>d\<in>set (take 6 ds).
      dl_actorId d = line_actorId (ls ! i) \<and> dl_text d = line_text (ls ! i)"
    by metis
  then have "synthesizeOne env ds am i (ls ! i) = synthesizeOne env (take 6 ds) am i (ls ! i)"
    by (rule synthesizeOne_take_6)
  then show "synthesizeAll env ds am ls ! i = synthesizeAll env (take 6 ds) am ls ! i"
    using i by (simp add: synthesizeAll_nth)
qed

lemma primaryTurn_empty:
  "dr_newLines dr = Some [] \<Longrightarrow>
     primaryTurn env start dr beat =
       (Inl NoDialogueLines, applyActorUpdates dr (applyMetadata dr start))"
  by (simp add: primaryTurn_def)

lemma primaryTurn_invalid:
  assumes "dr_newLines dr = Some ds" and "ds \<noteq> []"
    and "makeLines (scene_actors (applyActorUpdates dr (applyMetadata dr start))) (now_lines env) 0
           beat (take 6 ds) = Inl e"
  shows "primaryTurn env start dr beat = (Inl e, applyActorUpdates dr (applyMetadata dr start))"
  using assms by (simp add: primaryTurn_def)

lemma primaryTurn_valid:
  assumes "dr_newLines dr = Some ds" and "ds \<noteq> []"
    and "makeLines (scene_actors (applyActorUpdates dr (applyMetadata dr start))) (now_lines env) 0
           beat (take 6 ds) = Inr ls"
  shows "primaryTurn env start dr beat =
     (Inr (updatedScene (applyActorUpdates dr (applyMetadata dr start))
             (synthesizeAll env ds
                (map (\<lambda>actor. (actor_id actor, actor))
                   (scene_actors (applyActorUpdates dr (applyMetadata dr start)))) ls)
             (now_updated env)),
      applyActorUpdates dr (applyMetadata dr start))"
  using assms by (simp add: primaryTurn_def Let_def)

lemma primaryTurn_take_6:
  assumes "dr_newLines dr = Some ds"
  shows "primaryTurn env start dr beat =
     primaryTurn (env\<lparr>director_reply := x\<rparr>) start (dr\<lparr>dr_newLines := Some (take 6 ds)\<rparr>) beat"
proof -
  let ?dr = "dr\<lparr>dr_newLines := Some (take 6 ds)\<rparr>"
  let ?env = "env\<lparr>director_reply := x\<rparr>"
  let ?patched = "applyActorUpdates dr (applyMetadata dr start)"
  let ?am = "map (\<lambda>actor. (actor_id actor, actor)) (scene_actors ?patched)"
  have p: "applyActorUpdates ?dr (applyMetadata ?dr start) = ?patched"
    by (simp add: applyActorUpdates_def applyMetadata_def)
  have n: "dr_newLines ?dr = Some (take 6 ds)" by simp
  have t: "take 6 (take 6 ds) = take 6 ds" by simp
  show ?thesis
  proof (cases "ds = []")
    case True
    then show ?thesis
      using primaryTurn_empty [of dr env start beat] primaryTurn_empty [of ?dr ?env start beat]
        assms p
      by simp
  next
    case False
    then have ne: "take 6 ds \<noteq> []" by (cases ds) simp_all
    show ?thesis
    proof (cases "makeLines (scene_actors ?patched) (now_lines env) 0 beat (take 6 ds)")
      case (Inl e)
      have m: "makeLines (scene_actors (applyActorUpdates ?dr (applyMetadata ?dr start)))
          (now_lines ?env) 0 beat (take 6 (take 6 ds)) = Inl e"
        using Inl unfolding p t by simp
      show ?thesis
        using primaryTurn_invalid [OF assms False Inl] primaryTurn_invalid [OF n ne m]
        unfolding p by simp
    next
      case (Inr ls)
      have m: "makeLines (scene_actors (applyActorUpdates ?dr (applyMetadata ?dr start)))
          (now_lines ?env) 0 beat (take 6 (take 6 ds)) = Inr ls"
        using Inr unfolding p t by simp
      have se: "synthesizeOne ?env (take 6 ds) ?am i l = synthesizeOne env (take 6 ds) ?am i l"
        for i l
        by (rule synthesizeOne_env) simp
      have "synthesizeAll ?env (take 6 ds) ?am ls = synthesizeAll env (take 6 ds) ?am ls"
        by (rule nth_equalityI) (simp_all add: synthesizeAll_nth se)
      then have "synthesizeAll ?env (take 6 ds) ?am ls = synthesizeAll env ds ?am ls"
        using synthesizeAll_take_6 [OF Inr] by simp
      then show ?thesis
        using primaryTurn_valid [OF assms False Inr] primaryTurn_valid [OF n ne m]
        unfolding p by simp
    qed
  qed
qed

lemma turn_lines_primary:
  assumes "handler env m st cmd = Inr r" and "runDirectorAgent env = Inr dr"
    and "dr_newLines dr = Some ds"
  shows "ds \<noteq> [] \<and> length (resp_newLines r) = min 6 (length ds) \<and>
    scene_lines (resp_sceneState r) = prior_lines st @ resp_newLines r"
  using turn_lines [OF assms(1)] assms(2,3) by blast

lemma find_actor_Some:
  "(\<exists>a. find (\<lambda>a. actor_id a = k) actors = Some a) \<longleftrightarrow> k \<in> actor_id ` set actors"
  using find_actor_None [of k actors] by auto

lemma lines_resolve_iff:
  "lines_resolve s \<longleftrightarrow>
     (\<forall>l\<in>set (scene_lines s). line_actorId l \<in> actor_id ` set (scene_actors s))"
  by (simp add: lines_resolve_def list_all_iff find_actor_Some)

lemma prior_le_current:
  "l \<in> set (prior_lines st) \<Longrightarrow> line_beatIndex l \<le> snd (currentScene env st)"
proof (cases st)
  case None
  assume "l \<in> set (prior_lines st)"
  then show ?thesis using None by (simp add: prior_lines_def)
next
  case (Some s)
  assume "l \<in> set (prior_lines st)"
  then have l: "l \<in> set (scene_lines s)" using Some by (simp add: prior_lines_def)
  then have "line_beatIndex l \<in> set (map line_beatIndex (scene_lines s) @ [0])" by simp
  then have "line_beatIndex l \<le> Max (set (map line_beatIndex (scene_lines s) @ [0]))"
    by (intro Max_ge) simp_all
  moreover have "scene_lines s \<noteq> []" using l by auto
  ultimately show ?thesis using Some by (simp add: currentBeatIndexOf_def)
qed

lemma current_no_lines: "prior_lines st = [] \<Longrightarrow> snd (currentScene env st) = 0"
  by (cases st) (simp_all add: prior_lines_def currentBeatIndexOf_def)

lemma current_is_max:
  assumes "prior_lines st \<noteq> []" and "\<forall>l\<in>set (prior_lines st). 0 \<le> line_beatIndex l"
  shows "snd (currentScene env st) = Max (line_beatIndex ` set (prior_lines st))"
proof -
  obtain s where s: "st = Some s" "scene_lines s \<noteq> []" "prior_lines st = scene_lines s"
    using assms(1) by (cases st) (simp_all add: prior_lines_def)
  let ?A = "line_beatIndex ` set (scene_lines s)"
  have ne: "?A \<noteq> {}" and fin: "finite ?A" using s(2) by simp_all
  obtain l where "l \<in> set (scene_lines s)" using s(2) by (cases "scene_lines s") auto
  then have "0 \<le> line_beatIndex l" "line_beatIndex l \<le> Max ?A"
    using assms(2) s(3) fin by (simp_all add: Max_ge)
  then have "0 \<le> Max ?A" by linarith
  then have "Max (insert 0 ?A) = Max ?A"
    using ne fin by (simp add: max_def)
  then show ?thesis using s by (simp add: currentBeatIndexOf_def)
qed

lemma current_start:
  "snd (currentScene env st) =
     (if prior_lines st = [] then 0
      else max 0 (Max (line_beatIndex ` set (prior_lines st))))"
proof (cases "prior_lines st = []")
  case True
  then show ?thesis using current_no_lines by simp
next
  case False
  then obtain s where s: "st = Some s" "scene_lines s \<noteq> []" "prior_lines st = scene_lines s"
    by (cases st) (simp_all add: prior_lines_def)
  let ?A = "line_beatIndex ` set (scene_lines s)"
  have "?A \<noteq> {}" and "finite ?A" using s(2) by simp_all
  then have "Max (insert 0 ?A) = max 0 (Max ?A)" by (rule Max_insert [OF _ _, of ?A 0, rotated])
  then show ?thesis using s by (simp add: currentBeatIndexOf_def)
qed

lemma current_nonneg: "0 \<le> snd (currentScene env st)"
  unfolding current_start by simp

lemma sorted_constant: "\<forall>x\<in>set xs. f x = c \<Longrightarrow> sorted (map f xs)"
  by (induction xs) auto

lemma turn_beats_sorted:
  assumes "handler env m st cmd = Inr r"
  shows "sorted (map line_beatIndex (resp_newLines r)) \<and>
         (\<forall>l\<in>set (resp_newLines r). snd (currentScene env st) \<le> line_beatIndex l)"
proof -
  let ?start = "fst (currentScene env st)"
  let ?beat = "snd (currentScene env st)"
  from handler_Inr [OF assms] consider
    (fallback) e where "runDirectorAgent env = Inl e" "fallbackTurn env ?start cmd ?beat = Inr r"
  | (primary) dr where "runDirectorAgent env = Inr dr"
      "fst (primaryTurn env ?start dr ?beat) = Inr r"
    by blast
  then show ?thesis
  proof cases
    case fallback
    obtain ls where ls: "fallbackTurn env ?start cmd ?beat = Inr (updatedScene ?start ls (now_updated env))"
      "\<forall>l\<in>set ls. line_actorId l \<in> actor_id ` set (scene_actors ?start) \<and>
         line_beatIndex l = plus_one ?beat"
      using fallbackTurn_ok by blast
    then have r: "resp_newLines r = ls" using fallback(2) by auto
    have "sorted (map line_beatIndex ls)" using ls(2) by (intro sorted_constant [of _ _ "plus_one ?beat"]) simp
    then show ?thesis using r ls(2) by (simp add: plus_one_ge)
  next
    case primary
    let ?patched = "applyActorUpdates dr (applyMetadata dr ?start)"
    obtain ds ls where d: "makeLines (scene_actors ?patched) (now_lines env) 0 ?beat (take 6 ds) = Inr ls"
      "r = updatedScene ?patched
           (synthesizeAll env ds (map (\<lambda>actor. (actor_id actor, actor)) (scene_actors ?patched)) ls)
           (now_updated env)"
      using primaryTurn_Inr [OF primary(2)] by blast
    have p: "sorted (map line_beatIndex ls)" "\<forall>l\<in>set ls. ?beat \<le> line_beatIndex l"
      using makeLines_props [OF d(1)] by auto
    have "set (map line_beatIndex (resp_newLines r)) = set (map line_beatIndex ls)"
      using d(2) by simp
    then have "\<forall>l\<in>set (resp_newLines r). ?beat \<le> line_beatIndex l"
      using p(2) by (metis (no_types, lifting) image_iff set_map)
    then show ?thesis using p(1) d(2) by simp
  qed
qed

lemma turn_beat_step:
  assumes "handler env m st cmd = Inr r" and "runDirectorAgent env = Inr dr"
    and "dr_newLines dr = Some ds" and "i < length (resp_newLines r)"
  shows "line_beatIndex (resp_newLines r ! i) =
     (if dl_beatDelta (ds ! i) = 1
      then plus_one (if i = 0 then snd (currentScene env st)
                     else line_beatIndex (resp_newLines r ! (i - 1)))
      else (if i = 0 then snd (currentScene env st)
            else line_beatIndex (resp_newLines r ! (i - 1))))"
proof -
  let ?start = "fst (currentScene env st)"
  let ?beat = "snd (currentScene env st)"
  let ?patched = "applyActorUpdates dr (applyMetadata dr ?start)"
  have "fst (primaryTurn env ?start dr ?beat) = Inr r"
    using handler_Inr [OF assms(1)] assms(2) by auto
  then obtain ls where d:
    "makeLines (scene_actors ?patched) (now_lines env) 0 ?beat (take 6 ds) = Inr ls"
    "r = updatedScene ?patched
           (synthesizeAll env ds (map (\<lambda>actor. (actor_id actor, actor)) (scene_actors ?patched)) ls)
           (now_updated env)"
    using primaryTurn_Inr assms(3) by fastforce
  have len: "length ls = length (take 6 ds)" using makeLines_props [OF d(1)] by simp
  have i: "i < length ls" using assms(4) d(2) by simp
  then have i6: "i < length (take 6 ds)" using len by simp
  have nth: "line_beatIndex (resp_newLines r ! j) = line_beatIndex (ls ! j)" if "j < length ls" for j
    using that d(2) by (simp add: synthesizeAll_nth)
  have di: "take 6 ds ! i = ds ! i" using i6 by simp
  have prev: "line_beatIndex (resp_newLines r ! (i - 1)) = line_beatIndex (ls ! (i - 1))"
    using i by (intro nth) simp
  show ?thesis
    using makeLines_step [OF d(1) i6] nth [OF i] prev unfolding di by simp
qed

lemma turn_counter_nonneg:
  assumes "handler env m st cmd = Inr r" and "i < length (resp_newLines r)"
  shows "0 \<le> (if i = 0 then snd (currentScene env st)
               else line_beatIndex (resp_newLines r ! (i - 1)))"
proof -
  have s: "0 \<le> snd (currentScene env st)" by (rule current_nonneg)
  show ?thesis
  proof (cases i)
    case 0
    then show ?thesis using s by simp
  next
    case (Suc j)
    then have "resp_newLines r ! j \<in> set (resp_newLines r)" using assms(2) by simp
    then have "snd (currentScene env st) \<le> line_beatIndex (resp_newLines r ! j)"
      using turn_beats_sorted [OF assms(1)] by blast
    then show ?thesis using s Suc by simp
  qed
qed

lemma three_env_primary: "runDirectorAgent three_env = Inr three_response"
  by (simp add: runDirectorAgent_def three_env_def three_response_def seven_response_def)

lemma three_newLines: "dr_newLines three_response = Some three_directives"
  by (simp add: three_response_def)

lemma three_known:
  "\<forall>d\<in>set (take 6 three_directives).
     dl_actorId d \<in> actor_id ` set (scene_actors (fst (currentScene three_env st)))"
    if "scene_actors (fst (currentScene three_env st)) = defaultActors"
  unfolding that by (simp add: three_directives_def defaultActors_def)

lemma three_handler:
  assumes "scene_actors (fst (currentScene three_env st)) = defaultActors"
  shows "\<exists>r. handler three_env ''POST'' st ''continue'' = Inr r \<and> length (resp_newLines r) = 3"
proof -
  have ne: "three_directives \<noteq> []" by (simp add: three_directives_def)
  have "min 6 (length three_directives) = 3" by (simp add: three_directives_def)
  then show ?thesis
    using primary_known_actors [OF three_env_primary three_newLines ne three_known [OF assms],
        of "''continue''"]
    by auto
qed

lemma three_actors_None: "scene_actors (fst (currentScene three_env None)) = defaultActors"
  by (simp add: createDefaultScene_def)

lemma three_actors_one_line:
  "scene_actors (fst (currentScene three_env (Some one_line_scene))) = defaultActors"
  by (simp add: one_line_scene_def createDefaultScene_def)

lemma three_actors_big_beat:
  "scene_actors (fst (currentScene three_env (Some big_beat_scene))) = defaultActors"
  by (simp add: big_beat_scene_def createDefaultScene_def)

lemma big_beat_prior: "prior_lines (Some big_beat_scene) =
    [\<lparr>line_id = ''line-0-0'', line_actorId = ''actor-1'', line_text = ''Hello.'',
      line_timestamp = 0, line_beatIndex = 9007199254740992, line_audioUrl = []\<rparr>]"
  by (simp add: prior_lines_def big_beat_scene_def)

lemma plus_one_lost: "plus_one 9007199254740992 = 9007199254740992"
  by (simp add: plus_one_def)

lemma one_line_prior: "prior_lines (Some one_line_scene) =
    [\<lparr>line_id = ''line-0-0'', line_actorId = ''actor-1'', line_text = ''Hello.'',
      line_timestamp = 0, line_beatIndex = 2, line_audioUrl = []\<rparr>]"
  by (simp add: prior_lines_def one_line_scene_def)

lemma synthesizeOne_restore:
  "(synthesizeOne env ds am i l)\<lparr>line_audioUrl := line_audioUrl l\<rparr> = l"
  by (simp add: synthesizeOne_def Let_def split: option.splits)

lemma synthesizeOne_throws:
  assumes "\<forall>text voiceId language. synthesizeLine env i text voiceId language = None"
  shows "synthesizeOne env ds am i l = l"
  using assms by (simp add: synthesizeOne_def Let_def split: option.splits)

lemma synthesizeOne_same_call:
  assumes "synthesizeLine env' i = synthesizeLine env i"
  shows "synthesizeOne env' ds am i l = synthesizeOne env ds am i l"
  using assms by (simp add: synthesizeOne_def cong: option.case_cong)

lemma runDirectorAgent_synth [simp]:
  "runDirectorAgent (env\<lparr>synthesizeLine := f\<rparr>) = runDirectorAgent env"
  by (simp add: runDirectorAgent_def)

lemma currentScene_synth [simp]:
  "currentScene (env\<lparr>synthesizeLine := f\<rparr>) st = currentScene env st"
  by (cases st) simp_all

lemma fallbackTurn_synth [simp]:
  "fallbackTurn (env\<lparr>synthesizeLine := f\<rparr>) start cmd beat = fallbackTurn env start cmd beat"
  by (simp add: fallbackTurn_def split: sum.splits)

lemma fallback_ignores_synthesis:
  assumes "runDirectorAgent env = Inl e"
  shows "handler (env\<lparr>synthesizeLine := f\<rparr>) m st cmd = handler env m st cmd"
proof (cases "m = ''POST'' \<and> cmd \<noteq> []")
  case True
  then show ?thesis using assms by (simp add: handler_POST)
next
  case False
  then show ?thesis by (auto simp: handler_def handler_run_def)
qed

lemma primary_synthesis_isolated:
  assumes "runDirectorAgent env = Inr dr" and "handler env m st cmd = Inr r"
  shows "\<exists>r'. handler (env\<lparr>synthesizeLine := f\<rparr>) m st cmd = Inr r' \<and>
           length (resp_newLines r') = length (resp_newLines r) \<and>
           (\<forall>i<length (resp_newLines r).
              ((\<forall>text voiceId language. f i text voiceId language = None) \<longrightarrow>
                 resp_newLines r' ! i = (resp_newLines r ! i)\<lparr>line_audioUrl := []\<rparr>) \<and>
              (f i = synthesizeLine env i \<longrightarrow> resp_newLines r' ! i = resp_newLines r ! i))"
proof -
  let ?env = "env\<lparr>synthesizeLine := f\<rparr>"
  let ?start = "fst (currentScene env st)"
  let ?beat = "snd (currentScene env st)"
  let ?patched = "applyActorUpdates dr (applyMetadata dr ?start)"
  let ?am = "map (\<lambda>actor. (actor_id actor, actor)) (scene_actors ?patched)"
  have mc: "m = ''POST''" "cmd \<noteq> []" using handler_Inr [OF assms(2)] by simp_all
  have "fst (primaryTurn env ?start dr ?beat) = Inr r"
    using handler_Inr [OF assms(2)] assms(1) by auto
  then obtain ds ls where d: "dr_newLines dr = Some ds" "ds \<noteq> []"
    "makeLines (scene_actors ?patched) (now_lines env) 0 ?beat (take 6 ds) = Inr ls"
    "r = updatedScene ?patched (synthesizeAll env ds ?am ls) (now_updated env)"
    using primaryTurn_Inr by blast
  let ?r = "updatedScene ?patched (synthesizeAll ?env ds ?am ls) (now_updated env)"
  have mk: "makeLines (scene_actors ?patched) (now_lines ?env) 0 ?beat (take 6 ds) = Inr ls"
    using d(3) by simp
  have "fst (primaryTurn ?env ?start dr ?beat) = Inr ?r"
    using primaryTurn_success [OF d(1,2) mk] by simp
  then have h: "handler ?env m st cmd = Inr ?r"
    using assms(1) mc by (simp add: handler_POST)
  have len: "length (resp_newLines ?r) = length (resp_newLines r)" using d(4) by simp
  have empty: "\<forall>l\<in>set ls. line_audioUrl l = []" using makeLines_props [OF d(3)] by blast
  have each: "((\<forall>text voiceId language. f i text voiceId language = None) \<longrightarrow>
        resp_newLines ?r ! i = (resp_newLines r ! i)\<lparr>line_audioUrl := []\<rparr>) \<and>
      (f i = synthesizeLine env i \<longrightarrow> resp_newLines ?r ! i = resp_newLines r ! i)"
    if "i < length (resp_newLines r)" for i
  proof -
    have i: "i < length ls" using that d(4) by simp
    then have e: "line_audioUrl (ls ! i) = []" using empty by simp
    have new: "resp_newLines ?r ! i = synthesizeOne ?env ds ?am i (ls ! i)"
      using i by (simp add: synthesizeAll_nth)
    have old: "resp_newLines r ! i = synthesizeOne env ds ?am i (ls ! i)"
      using i d(4) by (simp add: synthesizeAll_nth)
    have "resp_newLines ?r ! i = (resp_newLines r ! i)\<lparr>line_audioUrl := []\<rparr>"
      if "\<forall>text voiceId language. f i text voiceId language = None"
    proof -
      have "synthesizeOne ?env ds ?am i (ls ! i) = ls ! i"
        using that by (intro synthesizeOne_throws) simp
      then show ?thesis
        using synthesizeOne_restore [where env = env and ds = ds and am = ?am and i = i and l = "ls ! i"]
          e new old
        by simp
    qed
    moreover have "resp_newLines ?r ! i = resp_newLines r ! i" if "f i = synthesizeLine env i"
    proof -
      have "synthesizeOne ?env ds ?am i (ls ! i) = synthesizeOne env ds ?am i (ls ! i)"
        using that by (intro synthesizeOne_same_call) simp
      then show ?thesis using new old by simp
    qed
    ultimately show ?thesis by blast
  qed
  show ?thesis
    using h len each by blast
qed

lemma failed_turn_leaves_metadata_in_request:
  "handler ghost_env ''POST'' (Some one_line_scene) ''continue'' = Inl InternalServerError \<and>
   scene_title one_line_scene = ''Untitled Scene'' \<and>
   map_option scene_title (request_scene_after ghost_env ''POST'' (Some one_line_scene) ''continue'') =
     Some ''The Cellar'' \<and>
   map_option scene_lines (request_scene_after ghost_env ''POST'' (Some one_line_scene) ''continue'') =
     Some (scene_lines one_line_scene)"
proof -
  let ?dr = "seven_response\<lparr>dr_newLines := Some [directive_of ''ghost'']\<rparr>"
  have p: "runDirectorAgent ghost_env = Inr ?dr"
    by (simp add: runDirectorAgent_def ghost_env_def seven_response_def)
  have n: "dr_newLines ?dr = Some [directive_of ''ghost'']" by simp
  have m: "dr_sceneMetadata ?dr =
      Some \<lparr>md_title = ''The Cellar'', md_genre = ''horror'', md_setting = ''A cellar'',
        md_logline = ''Something stirs below.''\<rparr>"
    by (simp add: seven_response_def)
  have u: "\<exists>d\<in>set (take 6 [directive_of ''ghost'']).
      dl_actorId d \<notin> actor_id ` set (scene_actors (fst (currentScene ghost_env (Some one_line_scene))))"
    by (simp add: directive_of_def one_line_scene_def createDefaultScene_def defaultActors_def)
  have "handler ghost_env ''POST'' (Some one_line_scene) ''continue'' = Inl InternalServerError"
    using primary_unknown_actor [OF p n u] by simp
  moreover have "scene_title one_line_scene = ''Untitled Scene''"
    by (simp add: one_line_scene_def createDefaultScene_def)
  moreover have "request_scene_after ghost_env ''POST'' (Some one_line_scene) ''continue'' =
      Some (applyActorUpdates ?dr (applyMetadata ?dr one_line_scene))"
    using p by (simp add: request_scene_after_def handler_run_def primaryTurn_snd split_beta)
  ultimately show ?thesis
    using applyMetadata_title [OF m, of one_line_scene] by simp
qed

section \<open>The claims\<close>

text \<open>
  Claim C1, as the code has it. For a value of \<open>Math.random()\<close> in \<open>[0, 1)\<close>, a turn that
  succeeds returns a scene whose lines are the lines of the request's scene (none, when
  the request carries no scene) followed by the new lines of the response. The new lines
  are empty exactly when the director call failed and the scene has no actors: the mock
  director then returns no lines and the turn still succeeds. Whether the turn succeeds or
  fails, the lines of the scene object of the request are left as they were.
\<close>

theorem turn_appends_or_fails:
  assumes "0 \<le> random env" and "random env < 1"
  shows "(\<forall>r. handler env m st cmd = Inr r \<longrightarrow>
            scene_lines (resp_sceneState r) = prior_lines st @ resp_newLines r \<and>
            (resp_newLines r = [] \<longleftrightarrow>
               (\<exists>e. runDirectorAgent env = Inl e) \<and>
               scene_actors (fst (currentScene env st)) = [])) \<and>
         map_option scene_lines (request_scene_after env m st cmd) = map_option scene_lines st"
proof (intro conjI allI impI)
  fix r
  assume h: "handler env m st cmd = Inr r"
  show "scene_lines (resp_sceneState r) = prior_lines st @ resp_newLines r"
    using turn_lines [OF h] by simp
  show "resp_newLines r = [] \<longleftrightarrow>
      (\<exists>e. runDirectorAgent env = Inl e) \<and> scene_actors (fst (currentScene env st)) = []"
  proof (cases "runDirectorAgent env")
    case (Inl e)
    then have "length (resp_newLines r) =
        (if scene_actors (fst (currentScene env st)) = [] then 0
         else nat (3 + \<lfloor>random env * 2\<rfloor>))"
      using turn_lines [OF h] by simp
    then show ?thesis
      using Inl numLines_range [OF assms] by (auto split: if_splits)
  next
    case (Inr dr)
    then obtain ds where "dr_newLines dr = Some ds"
      by (auto simp: runDirectorAgent_Inr)
    then have "ds \<noteq> []" "length (resp_newLines r) = min 6 (length ds)"
      using turn_lines [OF h] Inr by auto
    then show ?thesis using Inr by (cases ds) auto
  qed
next
  show "map_option scene_lines (request_scene_after env m st cmd) = map_option scene_lines st"
    by (rule request_scene_after_lines)
qed

text \<open>
  The instance for a failing director call and no scene: the default scene gets new lines.
\<close>

theorem turn_appends_or_fails_witness:
  "0 \<le> random failing_env \<and> random failing_env < 1 \<and>
   (\<exists>r. handler failing_env ''POST'' None ''continue'' = Inr r \<and>
      scene_lines (resp_sceneState r) = prior_lines None @ resp_newLines r \<and>
      resp_newLines r \<noteq> []) \<and>
   map_option scene_lines (request_scene_after failing_env ''POST'' None ''continue'') = None"
proof -
  have r: "0 \<le> random failing_env" "random failing_env < 1"
    by (simp_all add: failing_env_def)
  obtain ls where ls: "handler failing_env ''POST'' None ''continue'' =
      Inr (updatedScene (fst (currentScene failing_env None)) ls (now_updated failing_env))"
    using fallback_succeeds [OF failing_env_fallback, of "''continue''" None] by auto
  have a: "scene_actors (fst (currentScene failing_env None)) \<noteq> []"
    by (simp add: createDefaultScene_def defaultActors_def)
  show ?thesis
    using turn_appends_or_fails [OF r, of "''POST''" None "''continue''"] ls a r
      failing_env_fallback
    by simp
qed

text \<open>
  Claim C1 as stated fails: for a scene without actors and a failing director call the
  turn succeeds and the returned lines are the lines of the request.
\<close>

theorem turn_appends_or_fails_counterexample:
  "\<not> isl (handler failing_env ''POST'' (Some empty_cast_scene) ''continue'') \<and>
   scene_lines (resp_sceneState (projr (handler failing_env ''POST'' (Some empty_cast_scene) ''continue''))) =
     scene_lines empty_cast_scene \<and>
   resp_newLines (projr (handler failing_env ''POST'' (Some empty_cast_scene) ''continue'')) = []"
proof -
  have "scene_actors empty_cast_scene = []" by (simp add: empty_cast_scene_def)
  then show ?thesis
    using fallback_no_actors [OF failing_env_fallback, of empty_cast_scene "''continue''"]
    by simp
qed

text \<open>
  Claim C2, as the code has it. When the director agent returns a response and one of
  its first six line directives names an actor that is not in the roster of the scene, the
  turn fails: the answer is an error, which carries no scene (status 500 for a POST with a
  command).
\<close>

theorem unknown_actor_fails_turn:
  assumes "runDirectorAgent env = Inr dr" and "dr_newLines dr = Some ds"
    and "\<exists>d\<in>set (take 6 ds). dl_actorId d \<notin> actor_id ` set (scene_actors (fst (currentScene env st)))"
  shows "handler env m st cmd =
     Inl (if m \<noteq> ''POST'' then MethodNotAllowed
          else if cmd = [] then UserCommandRequired
          else InternalServerError)"
proof (cases "m = ''POST'' \<and> cmd \<noteq> []")
  case True
  then show ?thesis using primary_unknown_actor [OF assms] by simp
next
  case False
  then show ?thesis by (auto simp: handler_def handler_run_def)
qed

text \<open>
  The instance for a response whose only directive names the unknown actor \<open>ghost\<close>.
\<close>

theorem unknown_actor_fails_turn_witness:
  "runDirectorAgent ghost_env =
     Inr (seven_response\<lparr>dr_newLines := Some [directive_of ''ghost'']\<rparr>) \<and>
   ''ghost'' \<notin> actor_id ` set defaultActors \<and>
   handler ghost_env ''POST'' None ''continue'' = Inl InternalServerError"
proof -
  let ?dr = "seven_response\<lparr>dr_newLines := Some [directive_of ''ghost'']\<rparr>"
  have p: "runDirectorAgent ghost_env = Inr ?dr"
    by (simp add: runDirectorAgent_def ghost_env_def seven_response_def)
  have n: "dr_newLines ?dr = Some [directive_of ''ghost'']" by simp
  have g: "''ghost'' \<notin> actor_id ` set defaultActors" by (simp add: defaultActors_def)
  have u: "\<exists>d\<in>set (take 6 [directive_of ''ghost'']).
      dl_actorId d \<notin> actor_id ` set (scene_actors (fst (currentScene ghost_env None)))"
    by (simp add: directive_of_def createDefaultScene_def defaultActors_def)
  show ?thesis
    using unknown_actor_fails_turn [OF p n u, of "''POST''" "''continue''"] p g by simp
qed

text \<open>
  Claim C2 as stated fails: a response of seven directives whose seventh names the
  unknown actor \<open>ghost\<close> is answered with success; the metadata of the response and six
  lines are in the returned scene.
\<close>

theorem unknown_actor_fails_turn_counterexample:
  "dl_actorId (seven_directives ! 6) = ''ghost'' \<and>
   ''ghost'' \<notin> actor_id ` set defaultActors \<and>
   runDirectorAgent seven_env = Inr seven_response \<and>
   dr_newLines seven_response = Some seven_directives \<and>
   \<not> isl (handler seven_env ''POST'' None ''continue'') \<and>
   length (resp_newLines (projr (handler seven_env ''POST'' None ''continue''))) = 6 \<and>
   scene_title (resp_sceneState (projr (handler seven_env ''POST'' None ''continue''))) =
     ''The Cellar'' \<and>
   scene_genre (resp_sceneState (projr (handler seven_env ''POST'' None ''continue''))) =
     ''horror''"
proof -
  have m: "dr_sceneMetadata seven_response =
      Some \<lparr>md_title = ''The Cellar'', md_genre = ''horror'', md_setting = ''A cellar'',
        md_logline = ''Something stirs below.''\<rparr>"
    by (simp add: seven_response_def)
  have g: "dl_actorId (seven_directives ! 6) = ''ghost''"
    by (simp add: seven_directives_def directive_of_def nth_append)
  have d: "''ghost'' \<notin> actor_id ` set defaultActors"
    by (simp add: defaultActors_def)
  obtain ls where ls: "length ls = 6"
    "handler seven_env ''POST'' None ''continue'' =
       Inr (updatedScene
              (applyActorUpdates seven_response
                 (applyMetadata seven_response (fst (currentScene seven_env None)))) ls
              (now_updated seven_env))"
    using seven_handler by blast
  show ?thesis
    using g d seven_env_primary ls applyMetadata_title [OF m] applyMetadata_genre [OF m]
    by (simp add: seven_response_def)
qed

text \<open>
  Claim C3, as the code has it. When the lines of the request's scene have non-decreasing
  beat indices, so have the lines of the scene a successful turn returns. The running beat
  counter starts at 0 without lines and otherwise at the greatest beat index of the scene,
  or at 0 if that is negative. On the primary path a directive whose \<open>beatDelta\<close> is 1
  raises the counter by one in the arithmetic of JavaScript numbers, any other directive
  leaves it, and the line gets the counter after this step. So the beat index of a line is
  the counter before it plus the \<open>beatDelta\<close> of its directive when the \<open>beatDelta\<close> is 0 or
  1 and the counter is below \<open>2^53\<close>.
\<close>

theorem beatIndex_nondecreasing:
  assumes "handler env m st cmd = Inr r"
  shows "(sorted (map line_beatIndex (prior_lines st)) \<longrightarrow>
        sorted (map line_beatIndex (scene_lines (resp_sceneState r)))) \<and>
    snd (currentScene env st) =
      (if prior_lines st = [] then 0
       else max 0 (Max (line_beatIndex ` set (prior_lines st)))) \<and>
    (\<forall>dr ds i. runDirectorAgent env = Inr dr \<and> dr_newLines dr = Some ds \<and>
        i < length (resp_newLines r) \<longrightarrow>
       (let counter = (if i = 0 then snd (currentScene env st)
                       else line_beatIndex (resp_newLines r ! (i - 1)))
        in line_beatIndex (resp_newLines r ! i) =
             (if dl_beatDelta (ds ! i) = 1 then plus_one counter else counter) \<and>
           (dl_beatDelta (ds ! i) \<in> {0, 1} \<and> counter < 2 ^ 53 \<longrightarrow>
              line_beatIndex (resp_newLines r ! i) = counter + dl_beatDelta (ds ! i))))"
proof (intro conjI allI impI)
  assume sorted: "sorted (map line_beatIndex (prior_lines st))"
  have "scene_lines (resp_sceneState r) = prior_lines st @ resp_newLines r"
    using turn_lines [OF assms] by simp
  moreover have "\<forall>x\<in>set (prior_lines st). \<forall>y\<in>set (resp_newLines r).
      line_beatIndex x \<le> line_beatIndex y"
    using prior_le_current [of _ st env] turn_beats_sorted [OF assms] by fastforce
  ultimately show "sorted (map line_beatIndex (scene_lines (resp_sceneState r)))"
    using sorted turn_beats_sorted [OF assms] by (simp add: sorted_append)
next
  show "snd (currentScene env st) =
      (if prior_lines st = [] then 0
       else max 0 (Max (line_beatIndex ` set (prior_lines st))))"
    by (rule current_start)
next
  fix dr ds i
  assume a: "runDirectorAgent env = Inr dr \<and> dr_newLines dr = Some ds \<and>
      i < length (resp_newLines r)"
  let ?counter = "if i = 0 then snd (currentScene env st)
                  else line_beatIndex (resp_newLines r ! (i - 1))"
  have step: "line_beatIndex (resp_newLines r ! i) =
      (if dl_beatDelta (ds ! i) = 1 then plus_one ?counter else ?counter)"
    using turn_beat_step [OF assms, of dr ds i] a by simp
  have nonneg: "0 \<le> ?counter"
    using turn_counter_nonneg [OF assms, of i] a by simp
  have exact: "line_beatIndex (resp_newLines r ! i) = ?counter + dl_beatDelta (ds ! i)"
    if "dl_beatDelta (ds ! i) \<in> {0, 1}" and "?counter < 2 ^ 53"
  proof -
    have "- (2 ^ 53) \<le> (0::int)" by simp
    then have "- (2 ^ 53) \<le> ?counter" using nonneg by (rule order_trans)
    then have "plus_one ?counter = ?counter + 1" using that(2) by (rule plus_one_exact)
    then show ?thesis using step that(1) by auto
  qed
  show "let counter = ?counter
        in line_beatIndex (resp_newLines r ! i) =
             (if dl_beatDelta (ds ! i) = 1 then plus_one counter else counter) \<and>
           (dl_beatDelta (ds ! i) \<in> {0, 1} \<and> counter < 2 ^ 53 \<longrightarrow>
              line_beatIndex (resp_newLines r ! i) = counter + dl_beatDelta (ds ! i))"
    unfolding Let_def using step exact by blast
qed

text \<open>
  The instance for the three-directive response, with the \<open>beatDelta\<close> values 1, 0 and 1,
  and a scene with one line of beat 2: the new lines have the beats 3, 3 and 4.
\<close>

theorem beatIndex_nondecreasing_witness:
  "sorted (map line_beatIndex (prior_lines (Some one_line_scene))) \<and>
   (\<exists>r. handler three_env ''POST'' (Some one_line_scene) ''continue'' = Inr r \<and>
      sorted (map line_beatIndex (scene_lines (resp_sceneState r))) \<and>
      snd (currentScene three_env (Some one_line_scene)) = 2 \<and>
      line_beatIndex (resp_newLines r ! 0) = 3 \<and>
      line_beatIndex (resp_newLines r ! 1) = 3 \<and>
      line_beatIndex (resp_newLines r ! 2) = 4)"
proof -
  let ?st = "Some one_line_scene"
  have s: "sorted (map line_beatIndex (prior_lines ?st))" by (simp add: one_line_prior)
  obtain r where r: "handler three_env ''POST'' ?st ''continue'' = Inr r"
    "length (resp_newLines r) = 3"
    using three_handler [OF three_actors_one_line] by auto
  note c3 = beatIndex_nondecreasing [OF r(1)]
  have sorted: "sorted (map line_beatIndex (scene_lines (resp_sceneState r)))"
    using c3 [THEN conjunct1] s by simp
  have start: "snd (currentScene three_env ?st) = 2"
    using c3 [THEN conjunct2, THEN conjunct1] by (simp add: one_line_prior)
  note step = c3 [THEN conjunct2, THEN conjunct2, rule_format, of three_response three_directives,
      unfolded Let_def, THEN conjunct2, rule_format]
  have b0: "line_beatIndex (resp_newLines r ! 0) = 3"
    using step [of 0] three_env_primary three_newLines r(2) start
    by (simp add: three_directives_def)
  have b1: "line_beatIndex (resp_newLines r ! 1) = 3"
    using step [of 1] three_env_primary three_newLines r(2) b0
    by (simp add: three_directives_def)
  have b2: "line_beatIndex (resp_newLines r ! 2) = 4"
    using step [of 2] three_env_primary three_newLines r(2) b1
    by (simp add: three_directives_def)
  show ?thesis using s r(1) sorted start b0 b1 b2 by blast
qed

text \<open>
  Claim C3 as stated fails: for a scene whose one line has the beat index \<open>2^53\<close> and a
  response whose first directive has the \<open>beatDelta\<close> 1, the turn succeeds, the counter
  starts at \<open>2^53\<close>, and the first new line has the beat index \<open>2^53\<close>, not \<open>2^53 + 1\<close>: the
  increment is lost in the rounding of the sum.
\<close>

theorem beatIndex_nondecreasing_counterexample:
  "sorted (map line_beatIndex (prior_lines (Some big_beat_scene))) \<and>
   runDirectorAgent three_env = Inr three_response \<and>
   dr_newLines three_response = Some three_directives \<and>
   dl_beatDelta (three_directives ! 0) = 1 \<and>
   \<not> isl (handler three_env ''POST'' (Some big_beat_scene) ''continue'') \<and>
   snd (currentScene three_env (Some big_beat_scene)) = 9007199254740992 \<and>
   line_beatIndex
     (resp_newLines (projr (handler three_env ''POST'' (Some big_beat_scene) ''continue'')) ! 0) =
     9007199254740992"
proof -
  let ?st = "Some big_beat_scene"
  have s: "sorted (map line_beatIndex (prior_lines ?st))" by (simp add: big_beat_prior)
  have d: "dl_beatDelta (three_directives ! 0) = 1" by (simp add: three_directives_def)
  obtain r where r: "handler three_env ''POST'' ?st ''continue'' = Inr r"
    "length (resp_newLines r) = 3"
    using three_handler [OF three_actors_big_beat] by auto
  have start: "snd (currentScene three_env ?st) = 9007199254740992"
    unfolding current_start by (simp add: big_beat_prior)
  have "line_beatIndex (resp_newLines r ! 0) = 9007199254740992"
    using turn_beat_step [OF r(1) three_env_primary three_newLines, of 0] r(2) d start
    by (simp add: plus_one_lost)
  then show ?thesis using s d r(1) start three_env_primary three_newLines by simp
qed

text \<open>
  Claim C4. When every line of the request's scene names an actor of its roster, every
  line of the scene a successful turn returns names an actor of the returned roster, on
  the primary path and on the fallback path.
\<close>

theorem actorIds_resolve:
  assumes "handler env m st cmd = Inr r"
    and "case st of None \<Rightarrow> True | Some s \<Rightarrow> lines_resolve s"
  shows "lines_resolve (resp_sceneState r)"
proof -
  let ?start = "fst (currentScene env st)"
  let ?beat = "snd (currentScene env st)"
  have old: "\<forall>l\<in>set (prior_lines st). line_actorId l \<in> actor_id ` set (scene_actors ?start)"
    using assms(2) by (cases st) (simp_all add: prior_lines_def lines_resolve_iff)
  from handler_Inr [OF assms(1)] consider
    (fallback) e where "runDirectorAgent env = Inl e" "fallbackTurn env ?start cmd ?beat = Inr r"
  | (primary) dr where "runDirectorAgent env = Inr dr"
      "fst (primaryTurn env ?start dr ?beat) = Inr r"
    by blast
  then show ?thesis
  proof cases
    case fallback
    obtain ls where ls: "fallbackTurn env ?start cmd ?beat = Inr (updatedScene ?start ls (now_updated env))"
      "\<forall>l\<in>set ls. line_actorId l \<in> actor_id ` set (scene_actors ?start) \<and>
         line_beatIndex l = plus_one ?beat"
      using fallbackTurn_ok by blast
    then have "r = updatedScene ?start ls (now_updated env)" using fallback(2) by simp
    then show ?thesis using old ls(2) by (auto simp: lines_resolve_iff)
  next
    case primary
    let ?patched = "applyActorUpdates dr (applyMetadata dr ?start)"
    obtain ds ls where d: "makeLines (scene_actors ?patched) (now_lines env) 0 ?beat (take 6 ds) = Inr ls"
      "r = updatedScene ?patched
           (synthesizeAll env ds (map (\<lambda>actor. (actor_id actor, actor)) (scene_actors ?patched)) ls)
           (now_updated env)"
      using primaryTurn_Inr [OF primary(2)] by blast
    have ids: "actor_id ` set (scene_actors ?patched) = actor_id ` set (scene_actors ?start)"
      by simp
    have new: "\<forall>l\<in>set ls. line_actorId l \<in> actor_id ` set (scene_actors ?patched)"
      using makeLines_props [OF d(1)] by blast
    have "set (map line_actorId (resp_newLines r)) = set (map line_actorId ls)"
      using d(2) by simp
    then have "\<forall>l\<in>set (resp_newLines r). line_actorId l \<in> actor_id ` set (scene_actors ?patched)"
      using new by (metis (no_types, lifting) image_iff set_map)
    then show ?thesis
      using old d(2) unfolding lines_resolve_iff ids by auto
  qed
qed

text \<open>
  The instance for a failing director call and the scene with one line.
\<close>

theorem actorIds_resolve_witness:
  "lines_resolve one_line_scene \<and>
   (\<exists>r. handler failing_env ''POST'' (Some one_line_scene) ''continue'' = Inr r \<and>
      lines_resolve (resp_sceneState r) \<and> length (scene_lines (resp_sceneState r)) = 5) \<and>
   (\<exists>r. handler three_env ''POST'' (Some one_line_scene) ''continue'' = Inr r \<and>
      lines_resolve (resp_sceneState r) \<and> length (scene_lines (resp_sceneState r)) = 4)"
proof -
  have h: "lines_resolve one_line_scene"
    by (simp add: lines_resolve_def one_line_scene_def createDefaultScene_def defaultActors_def)
  then have h': "case Some one_line_scene of None \<Rightarrow> True | Some s \<Rightarrow> lines_resolve s" by simp
  obtain ls where f: "handler failing_env ''POST'' (Some one_line_scene) ''continue'' =
      Inr (updatedScene (fst (currentScene failing_env (Some one_line_scene))) ls
             (now_updated failing_env))"
    "length ls = (if scene_actors (fst (currentScene failing_env (Some one_line_scene))) = [] then 0
                  else nat (3 + \<lfloor>random failing_env * 2\<rfloor>))"
    using fallback_succeeds [OF failing_env_fallback, of "''continue''" "Some one_line_scene"]
    by auto
  have "length ls = 4"
    using f(2) by (simp add: one_line_scene_def createDefaultScene_def defaultActors_def
        failing_env_def)
  then have fl: "length (scene_lines (resp_sceneState
      (updatedScene (fst (currentScene failing_env (Some one_line_scene))) ls
             (now_updated failing_env)))) = 5"
    by (simp add: one_line_scene_def)
  obtain r where r: "handler three_env ''POST'' (Some one_line_scene) ''continue'' = Inr r"
    "length (resp_newLines r) = 3"
    using three_handler [OF three_actors_one_line] by auto
  have rl: "length (scene_lines (resp_sceneState r)) = 4"
    using turn_lines [OF r(1)] r(2) by (simp add: one_line_prior)
  show ?thesis
    using h actorIds_resolve [OF f(1) h'] actorIds_resolve [OF r(1) h'] f(1) fl r(1) rl
    by blast
qed

text \<open>
  Claim C5, as the code has it. \<open>summarizeScene\<close> is a function of its three arguments
  alone. With no lines it returns the previous summary unchanged, or the phrase
  \<open>Scene is beginning.\<close> when the previous summary is empty. With at least one line and a
  previous summary that is not blank, the result has at most 800 characters. The cut at
  800 is made on the path that prefixes the previous summary only: the result for no lines
  is as long as the previous summary.
\<close>

theorem summarizeScene_length:
  "(prev' = prev \<and> lines' = lines \<and> actors' = actors \<longrightarrow>
      summarizeScene prev' lines' actors' = summarizeScene prev lines actors) \<and>
   summarizeScene [] [] actors = ''Scene is beginning.'' \<and>
   (prev \<noteq> [] \<longrightarrow> summarizeScene prev [] actors = prev) \<and>
   (lines \<noteq> [] \<and> trim prev \<noteq> [] \<longrightarrow> length (summarizeScene prev lines actors) \<le> 800)"
  using summarizeScene_cut [of lines prev actors]
  by (simp add: summarizeScene_no_lines)

text \<open>
  The instance for the previous summary \<open>Prev.\<close>, without lines and with one line.
\<close>

theorem summarizeScene_length_witness:
  "summarizeScene ''Prev.'' [] [] = ''Prev.'' \<and>
   trim ''Prev.'' \<noteq> [] \<and>
   length (summarizeScene ''Prev.'' [angry_line] []) \<le> 800"
proof -
  have "trim ''Prev.'' \<noteq> []" by (simp add: trim_def is_space_def)
  then show ?thesis
    using summarizeScene_length [of "''Prev.''" "''Prev.''" "[angry_line]" "[angry_line]" "[]" "[]"]
    by simp
qed

text \<open>
  Claim C5 as stated fails: without lines, a previous summary of 801 characters is
  returned as it is.
\<close>

theorem summarizeScene_length_counterexample:
  "800 < length (summarizeScene (replicate 801 (CHR ''x'')) [] [])"
  by (simp add: summarizeScene_no_lines)




text \<open>
  Claim C7. For a value of \<open>Math.random()\<close> in \<open>[0, 1)\<close>, \<open>generateMockLines\<close> never
  throws: for a scene without actors it returns no lines, and for a scene with at least one
  actor it returns between 2 and 4 lines (3 or 4, by \<open>generateMockLines_ok\<close>), each with the
  id of an actor of the scene.
\<close>

theorem generateMockLines_never_fails:
  assumes "0 \<le> r" and "r < 1"
  shows "(scene_actors s = [] \<longrightarrow> generateMockLines s cmd beat now r = Inr []) \<and>
         (scene_actors s \<noteq> [] \<longrightarrow>
            (\<exists>ls. generateMockLines s cmd beat now r = Inr ls \<and>
               2 \<le> length ls \<and> length ls \<le> 4 \<and>
               (\<forall>l\<in>set ls. line_actorId l \<in> actor_id ` set (scene_actors s))))"
proof (intro conjI impI)
  assume "scene_actors s = []"
  then show "generateMockLines s cmd beat now r = Inr []" by (rule generateMockLines_no_actors)
next
  assume "scene_actors s \<noteq> []"
  then obtain ls where "generateMockLines s cmd beat now r = Inr ls"
    "length ls = 3 \<or> length ls = 4"
    "\<forall>l\<in>set ls. line_actorId l \<in> actor_id ` set (scene_actors s) \<and> line_beatIndex l = plus_one beat"
    using generateMockLines_ok [OF assms] by blast
  then show "\<exists>ls. generateMockLines s cmd beat now r = Inr ls \<and>
               2 \<le> length ls \<and> length ls \<le> 4 \<and>
               (\<forall>l\<in>set ls. line_actorId l \<in> actor_id ` set (scene_actors s))"
    by auto
qed

text \<open>
  The instances for the default scene without its actors and for the default scene.
\<close>

theorem generateMockLines_never_fails_witness:
  "generateMockLines ((createDefaultScene 0)\<lparr>scene_actors := []\<rparr>) ''continue'' 0 0 (1 / 2) = Inr [] \<and>
   (\<exists>ls. generateMockLines (createDefaultScene 0) ''continue'' 0 0 (1 / 2) = Inr ls \<and>
      2 \<le> length ls \<and> length ls \<le> 4 \<and>
      list_all (\<lambda>l. line_actorId l \<in> set [''actor-1'', ''actor-2'', ''actor-3'']) ls)"
proof -
  have r: "(0::rat) \<le> 1 / 2" "(1 / 2 :: rat) < 1" by simp_all
  have a: "scene_actors (createDefaultScene 0) \<noteq> []"
    by (simp add: createDefaultScene_def defaultActors_def)
  have ids: "actor_id ` set (scene_actors (createDefaultScene 0)) =
      set [''actor-1'', ''actor-2'', ''actor-3'']"
    by (simp add: createDefaultScene_def defaultActors_def)
  show ?thesis
    using generateMockLines_never_fails [OF r, of "(createDefaultScene 0)\<lparr>scene_actors := []\<rparr>" "''continue''" 0 0]
      generateMockLines_never_fails [OF r, of "createDefaultScene 0" "''continue''" 0 0] a
    unfolding ids list_all_iff by simp
qed

text \<open>
  Claim C8. Take a turn that succeeds, and let the synthesis calls have any other
  outcomes. The turn still succeeds and returns as many new lines, appended to the lines
  of the request. On the fallback path, which makes no synthesis call, the answer is the
  same. On the primary path a line whose synthesis call throws is the line of the first
  turn with an empty \<open>audioUrl\<close>, and a line whose synthesis call has the outcome it
  had is the same line.
\<close>

theorem synthesis_failure_isolated:
  assumes "handler env m st cmd = Inr r"
  shows "\<exists>r'. handler (env\<lparr>synthesizeLine := f\<rparr>) m st cmd = Inr r' \<and>
           length (resp_newLines r') = length (resp_newLines r) \<and>
           scene_lines (resp_sceneState r') = prior_lines st @ resp_newLines r' \<and>
           ((\<exists>e. runDirectorAgent env = Inl e) \<longrightarrow> r' = r) \<and>
           ((\<exists>dr. runDirectorAgent env = Inr dr) \<longrightarrow>
              (\<forall>i<length (resp_newLines r).
                 ((\<forall>text voiceId language. f i text voiceId language = None) \<longrightarrow>
                    resp_newLines r' ! i = (resp_newLines r ! i)\<lparr>line_audioUrl := []\<rparr>) \<and>
                 (f i = synthesizeLine env i \<longrightarrow> resp_newLines r' ! i = resp_newLines r ! i)))"
proof (cases "runDirectorAgent env")
  case (Inl e)
  have "handler (env\<lparr>synthesizeLine := f\<rparr>) m st cmd = Inr r"
    using fallback_ignores_synthesis [OF Inl] assms by simp
  moreover have "scene_lines (resp_sceneState r) = prior_lines st @ resp_newLines r"
    using turn_lines [OF assms] by simp
  ultimately show ?thesis using Inl by auto
next
  case (Inr dr)
  obtain r' where r': "handler (env\<lparr>synthesizeLine := f\<rparr>) m st cmd = Inr r'"
    "length (resp_newLines r') = length (resp_newLines r)"
    "\<forall>i<length (resp_newLines r).
       ((\<forall>text voiceId language. f i text voiceId language = None) \<longrightarrow>
          resp_newLines r' ! i = (resp_newLines r ! i)\<lparr>line_audioUrl := []\<rparr>) \<and>
       (f i = synthesizeLine env i \<longrightarrow> resp_newLines r' ! i = resp_newLines r ! i)"
    using primary_synthesis_isolated [OF Inr assms, of f] by blast
  have "scene_lines (resp_sceneState r') = prior_lines st @ resp_newLines r'"
    using turn_lines [OF r'(1)] by simp
  then show ?thesis using r' Inr by auto
qed

text \<open>
  The instance for the three-directive response, with the second call made to throw.
\<close>

theorem synthesis_failure_isolated_witness:
  "runDirectorAgent three_env = Inr three_response \<and>
   (\<exists>r r'. handler three_env ''POST'' None ''continue'' = Inr r \<and>
      handler (three_env\<lparr>synthesizeLine := fail_second\<rparr>) ''POST'' None ''continue'' = Inr r' \<and>
      length (resp_newLines r') = 3 \<and>
      resp_newLines r' ! 0 = resp_newLines r ! 0 \<and>
      resp_newLines r' ! 1 = (resp_newLines r ! 1)\<lparr>line_audioUrl := []\<rparr> \<and>
      resp_newLines r' ! 2 = resp_newLines r ! 2)"
proof -
  obtain r where r: "handler three_env ''POST'' None ''continue'' = Inr r"
    "length (resp_newLines r) = 3"
    using three_handler [OF three_actors_None] by auto
  have p: "\<exists>dr. runDirectorAgent three_env = Inr dr" using three_env_primary by blast
  obtain r' where r': "handler (three_env\<lparr>synthesizeLine := fail_second\<rparr>) ''POST'' None ''continue'' = Inr r'"
    "length (resp_newLines r') = length (resp_newLines r)"
    and each: "\<forall>i<length (resp_newLines r).
       ((\<forall>text voiceId language. fail_second i text voiceId language = None) \<longrightarrow>
          resp_newLines r' ! i = (resp_newLines r ! i)\<lparr>line_audioUrl := []\<rparr>) \<and>
       (fail_second i = synthesizeLine three_env i \<longrightarrow> resp_newLines r' ! i = resp_newLines r ! i)"
    using synthesis_failure_isolated [OF r(1), of fail_second] p by blast
  have s0: "fail_second 0 = synthesizeLine three_env 0"
    and s2: "fail_second 2 = synthesizeLine three_env 2"
    by (auto simp: fail_second_def three_env_def fun_eq_iff)
  have s1: "\<forall>text voiceId language. fail_second 1 text voiceId language = None"
    by (simp add: fail_second_def)
  have "resp_newLines r' ! 0 = resp_newLines r ! 0"
    using each [rule_format, of 0] r(2) s0 by simp
  moreover have "resp_newLines r' ! 1 = (resp_newLines r ! 1)\<lparr>line_audioUrl := []\<rparr>"
    using each [rule_format, of 1] r(2) s1 by simp
  moreover have "resp_newLines r' ! 2 = resp_newLines r ! 2"
    using each [rule_format, of 2] r(2) s2 by simp
  moreover have "length (resp_newLines r') = 3" using r'(2) r(2) by simp
  ultimately show ?thesis using three_env_primary r(1) r'(1) by blast
qed

text \<open>
  Claim C9, as the code has it. For the command \<open>Make it horror\<close> and no scene: when the
  director call fails the turn succeeds, and the genre of the returned scene is the
  \<open>drama\<close> of the default scene (the handler does not call \<open>createInitialScene\<close>, whose
  keyword check would give \<open>horror\<close>); when the director agent returns a response and the
  turn succeeds, the genre is the genre of the response's metadata. On both paths the
  roster of the returned scene has the three ids of the default roster.
\<close>

theorem horror_new_scene:
  "(\<forall>e. runDirectorAgent env = Inl e \<longrightarrow>
      (\<exists>r. handler env ''POST'' None ''Make it horror'' = Inr r \<and>
         scene_genre (resp_sceneState r) = ''drama'' \<and>
         map actor_id (scene_actors (resp_sceneState r)) =
           [''actor-1'', ''actor-2'', ''actor-3''])) \<and>
   (\<forall>dr r. runDirectorAgent env = Inr dr \<and>
        handler env ''POST'' None ''Make it horror'' = Inr r \<longrightarrow>
      (\<exists>m. dr_sceneMetadata dr = Some m \<and> scene_genre (resp_sceneState r) = md_genre m) \<and>
      map actor_id (scene_actors (resp_sceneState r)) = [''actor-1'', ''actor-2'', ''actor-3''])"
  using horror_fallback horror_primary by blast

text \<open>
  The instances for a failing director call and for the seven-directive response.
\<close>

theorem horror_new_scene_witness:
  "(\<exists>r. handler failing_env ''POST'' None ''Make it horror'' = Inr r \<and>
      scene_genre (resp_sceneState r) = ''drama'' \<and>
      map actor_id (scene_actors (resp_sceneState r)) = [''actor-1'', ''actor-2'', ''actor-3'']) \<and>
   (\<exists>r. handler seven_env ''POST'' None ''Make it horror'' = Inr r \<and>
      scene_genre (resp_sceneState r) = ''horror'' \<and>
      map actor_id (scene_actors (resp_sceneState r)) = [''actor-1'', ''actor-2'', ''actor-3''])"
proof -
  obtain r where r: "handler seven_env ''POST'' None ''Make it horror'' = Inr r"
    using seven_handler_horror by blast
  have m: "dr_sceneMetadata seven_response =
      Some \<lparr>md_title = ''The Cellar'', md_genre = ''horror'', md_setting = ''A cellar'',
        md_logline = ''Something stirs below.''\<rparr>"
    by (simp add: seven_response_def)
  show ?thesis
    using horror_new_scene [of failing_env] horror_new_scene [of seven_env]
      failing_env_fallback seven_env_primary r m
    by auto
qed

text \<open>
  Claim C9 as stated fails: with a failing director call the genre of the returned scene
  is \<open>drama\<close>, which does not mention horror.
\<close>

theorem horror_new_scene_counterexample:
  "\<not> isl (handler failing_env ''POST'' None ''Make it horror'') \<and>
   scene_genre (resp_sceneState (projr (handler failing_env ''POST'' None ''Make it horror''))) =
     ''drama'' \<and>
   \<not> str_includes (toLowerCase ''drama'') ''horror''"
proof -
  obtain r where "handler failing_env ''POST'' None ''Make it horror'' = Inr r"
    "scene_genre (resp_sceneState r) = ''drama''"
    using horror_fallback [OF failing_env_fallback] by blast
  moreover have "\<not> str_includes (toLowerCase ''drama'') ''horror''"
    by (simp add: toLowerCase_def toLowerCase_char_def upper_letters_def lower_letters_def
        upper_latin1_def lower_latin1_def)
  ultimately show ?thesis by simp
qed

text \<open>
  Claim C10. On the primary path the handler answers a response as it answers the same
  response cut to its first six directives; a turn that succeeds appends as many lines as
  there are directives, and at most 6.
\<close>

theorem only_first_six_directives:
  assumes "runDirectorAgent env = Inr dr" and "dr_newLines dr = Some ds"
  shows "handler env m st cmd =
           handler (env\<lparr>director_reply := Some (dr\<lparr>dr_newLines := Some (take 6 ds)\<rparr>)\<rparr>) m st cmd \<and>
         (\<forall>r. handler env m st cmd = Inr r \<longrightarrow>
            length (resp_newLines r) = min 6 (length ds) \<and>
            length (resp_newLines r) \<le> 6 \<and>
            scene_lines (resp_sceneState r) = prior_lines st @ resp_newLines r)"
proof
  let ?dr = "dr\<lparr>dr_newLines := Some (take 6 ds)\<rparr>"
  let ?env = "env\<lparr>director_reply := Some ?dr\<rparr>"
  have a: "runDirectorAgent ?env = Inr ?dr"
    using assms(1) by (simp add: runDirectorAgent_Inr)
  have c: "currentScene ?env st = currentScene env st"
    by (cases st) simp_all
  show "handler env m st cmd = handler ?env m st cmd"
  proof (cases "m = ''POST'' \<and> cmd \<noteq> []")
    case True
    then show ?thesis
      using assms(1) a c primaryTurn_take_6 [OF assms(2), of env _ _ "Some ?dr"]
      by (simp add: handler_POST)
  next
    case False
    then show ?thesis by (auto simp: handler_def handler_run_def)
  qed
next
  show "\<forall>r. handler env m st cmd = Inr r \<longrightarrow>
      length (resp_newLines r) = min 6 (length ds) \<and> length (resp_newLines r) \<le> 6 \<and>
      scene_lines (resp_sceneState r) = prior_lines st @ resp_newLines r"
  proof (intro allI impI)
    fix r
    assume h: "handler env m st cmd = Inr r"
    show "length (resp_newLines r) = min 6 (length ds) \<and> length (resp_newLines r) \<le> 6 \<and>
      scene_lines (resp_sceneState r) = prior_lines st @ resp_newLines r"
      using turn_lines_primary [OF h assms] by simp
  qed
qed

text \<open>
  The instance for the seven-directive response: six lines, no error.
\<close>

theorem only_first_six_directives_witness:
  "runDirectorAgent seven_env = Inr seven_response \<and>
   dr_newLines seven_response = Some seven_directives \<and>
   length seven_directives = 7 \<and>
   (\<exists>r. handler seven_env ''POST'' None ''continue'' = Inr r \<and> length (resp_newLines r) = 6) \<and>
   handler seven_env ''POST'' None ''continue'' =
     handler (seven_env\<lparr>director_reply :=
        Some (seven_response\<lparr>dr_newLines := Some (take 6 seven_directives)\<rparr>)\<rparr>)
       ''POST'' None ''continue''"
proof -
  have n: "dr_newLines seven_response = Some seven_directives"
    by (simp add: seven_response_def)
  have l: "length seven_directives = 7" by (simp add: seven_directives_def)
  obtain r where r: "handler seven_env ''POST'' None ''continue'' = Inr r"
    using seven_handler by blast
  note six = only_first_six_directives [OF seven_env_primary n, of "''POST''" None "''continue''"]
  have eq: "handler seven_env ''POST'' None ''continue'' =
     handler (seven_env\<lparr>director_reply :=
        Some (seven_response\<lparr>dr_newLines := Some (take 6 seven_directives)\<rparr>)\<rparr>)
       ''POST'' None ''continue''"
    using six by (rule conjunct1)
  have "length (resp_newLines r) = min 6 (length seven_directives)"
    using six [THEN conjunct2, rule_format, OF r] by (rule conjunct1)
  then have "length (resp_newLines r) = 6" unfolding l by simp
  then have ex: "\<exists>r. handler seven_env ''POST'' None ''continue'' = Inr r \<and>
      length (resp_newLines r) = 6"
    using r by blast
  show ?thesis
    by (intro conjI) (rule seven_env_primary n l ex eq)+
qed

end
